theory Spec2Isabelle
  imports Main "HOL-Library.Sublist" "HOL-Library.Word"
begin

section \<open>The AWS KMS key manager (pkg/server/plugin/keymanager/awskms/awskms.go)\<close>

text \<open>
  A shallow embedding of the plugin: the key-entry cache, the alias codec, the mapping
  between key types, key specs and signing algorithms, key generation and rotation,
  signing, and the reconciliation run by \<open>Configure\<close>.

  Conventions of the model.
  \<^item> Go strings are \<open>string\<close> (lists of bytes); byte slices are lists of 8-bit words.
  \<^item> A Go pointer that the code tests against \<open>nil\<close> or dereferences is an \<open>option\<close>;
    dereferencing \<open>nil\<close> is the error \<open>NilDereference\<close>.
  \<^item> An \<open>error\<close> return is the left summand of a sum; the message of the Go error is
    kept as a constructor of \<open>error\<close>, with the arguments that the message formats.
  \<^item> The mutex is not modelled: every operation is taken as one atomic step, which is
    what holding \<open>p.mu\<close> for the whole call gives.
  \<^item> Logging (\<open>p.log\<close>) is not modelled.
\<close>

subsection \<open>Constants\<close>

definition pluginName :: string where "pluginName = ''awskms''"
definition aliasPrefix :: string where "aliasPrefix = ''alias/''"
definition defaultKeyPrefix :: string where "defaultKeyPrefix = ''SPIRE_SERVER_KEY/''"

subsection \<open>Enumerations of the key manager interface\<close>

text \<open>
  \<open>keymanager.KeyType\<close> and \<open>keymanager.HashAlgorithm\<close> are protobuf enumerations, that
  is, 32-bit integers with named values. The constructors below are the values the
  source names; \<open>KeyType_other\<close> and \<open>HashAlgorithm_other\<close> stand for every other
  numeric value (for the hash algorithms these include the SHA-224 and SHA-3 members).
\<close>

datatype KeyType =
    KeyType_UNSPECIFIED_KEY_TYPE
  | KeyType_EC_P256
  | KeyType_EC_P384
  | KeyType_RSA_1024
  | KeyType_RSA_2048
  | KeyType_RSA_4096
  | KeyType_other int

datatype HashAlgorithm =
    HashAlgorithm_UNSPECIFIED_HASH_ALGORITHM
  | HashAlgorithm_SHA256
  | HashAlgorithm_SHA384
  | HashAlgorithm_SHA512
  | HashAlgorithm_other int

text \<open>
  \<open>types.CustomerMasterKeySpec\<close> and \<open>types.SigningAlgorithmSpec\<close> of the AWS SDK are
  string types; the named values are the SDK's string constants.
\<close>

type_synonym CustomerMasterKeySpec = string
type_synonym SigningAlgorithmSpec = string

definition CustomerMasterKeySpecRsa2048 :: CustomerMasterKeySpec where
  "CustomerMasterKeySpecRsa2048 = ''RSA_2048''"
definition CustomerMasterKeySpecRsa4096 :: CustomerMasterKeySpec where
  "CustomerMasterKeySpecRsa4096 = ''RSA_4096''"
definition CustomerMasterKeySpecEccNistP256 :: CustomerMasterKeySpec where
  "CustomerMasterKeySpecEccNistP256 = ''ECC_NIST_P256''"
definition CustomerMasterKeySpecEccNistP384 :: CustomerMasterKeySpec where
  "CustomerMasterKeySpecEccNistP384 = ''ECC_NIST_P384''"

definition SigningAlgorithmSpecEcdsaSha256 :: SigningAlgorithmSpec where
  "SigningAlgorithmSpecEcdsaSha256 = ''ECDSA_SHA_256''"
definition SigningAlgorithmSpecEcdsaSha384 :: SigningAlgorithmSpec where
  "SigningAlgorithmSpecEcdsaSha384 = ''ECDSA_SHA_384''"
definition SigningAlgorithmSpecRsassaPkcs1V15Sha256 :: SigningAlgorithmSpec where
  "SigningAlgorithmSpecRsassaPkcs1V15Sha256 = ''RSASSA_PKCS1_V1_5_SHA_256''"
definition SigningAlgorithmSpecRsassaPkcs1V15Sha384 :: SigningAlgorithmSpec where
  "SigningAlgorithmSpecRsassaPkcs1V15Sha384 = ''RSASSA_PKCS1_V1_5_SHA_384''"
definition SigningAlgorithmSpecRsassaPkcs1V15Sha512 :: SigningAlgorithmSpec where
  "SigningAlgorithmSpecRsassaPkcs1V15Sha512 = ''RSASSA_PKCS1_V1_5_SHA_512''"
definition SigningAlgorithmSpecRsassaPssSha256 :: SigningAlgorithmSpec where
  "SigningAlgorithmSpecRsassaPssSha256 = ''RSASSA_PSS_SHA_256''"
definition SigningAlgorithmSpecRsassaPssSha384 :: SigningAlgorithmSpec where
  "SigningAlgorithmSpecRsassaPssSha384 = ''RSASSA_PSS_SHA_384''"
definition SigningAlgorithmSpecRsassaPssSha512 :: SigningAlgorithmSpec where
  "SigningAlgorithmSpecRsassaPssSha512 = ''RSASSA_PSS_SHA_512''"

subsection \<open>Errors\<close>

text \<open>
  \<open>rerr\<close> is the error value a call of the KMS client, of the client constructor or of
  the HCL decoder returns. One constructor of \<open>error\<close> per error the plugin builds; the
  comment gives the message of the source.
\<close>

type_synonym rerr = string

datatype error =
    KeyIdRequired                          \<comment> \<open>key id is required\<close>
  | KeyTypeRequired                        \<comment> \<open>key type is required\<close>
  | SignerOptsRequired                     \<comment> \<open>signer opts is required\<close>
  | NoSuchKey string                       \<comment> \<open>no such key %q\<close>
  | FailedToCreateClient rerr              \<comment> \<open>failed to create KMS client: %v\<close>
  | FailedToCreateKey rerr                 \<comment> \<open>failed to create key: %v\<close>
  | FailedToGetPublicKey rerr              \<comment> \<open>failed to get public key: %v\<close>
  | FailedToCreateAlias rerr               \<comment> \<open>failed to create alias: %v\<close>
  | FailedToUpdateAlias rerr               \<comment> \<open>failed to update alias: %v\<close>
  | FailedToSign rerr                      \<comment> \<open>failed to sign: %v\<close>
  | FailedToDescribeKey rerr               \<comment> \<open>failed to describe key: %v\<close>
  | FailedToFetchKeys rerr                 \<comment> \<open>failed to fetch keys: %v\<close>
  | FailedToProcessKMSKey error            \<comment> \<open>failed to process KMS key: %v\<close>
  | SpireKeyIDRequired                     \<comment> \<open>spireKeyID is required\<close>
  | KMSKeyIDRequired                       \<comment> \<open>KMSKeyID is required\<close>
  | AliasRequired                          \<comment> \<open>Alias is required\<close>
  | PublicKeyRequired                      \<comment> \<open>PublicKey is required\<close>
  | PublicKeyIdRequired                    \<comment> \<open>PublicKey.Id is required\<close>
  | PublicKeyTypeRequired                  \<comment> \<open>PublicKey.Type is required\<close>
  | PublicKeyPkixDataRequired              \<comment> \<open>PublicKey.PkixData is required\<close>
  | AliasWithoutPrefix string              \<comment> \<open>alias does not contain the prefix %q\<close>
  | UnableToDecodeConfiguration rerr       \<comment> \<open>unable to decode configuration: %v\<close>
  | MissingRegion                          \<comment> \<open>configuration is missing a region\<close>
  | PSSOptionsRequired                     \<comment> \<open>PSS options are required\<close>
  | UnsupportedSignerOptsType              \<comment> \<open>unsupported signer opts type %T\<close>
  | HashAlgorithmRequired                  \<comment> \<open>hash algorithm is required\<close>
  | UnsupportedCombination KeyType HashAlgorithm
      \<comment> \<open>unsupported combination of keytype: %v and hashing algorithm: %v\<close>
  | UnsupportedKeySpec CustomerMasterKeySpec   \<comment> \<open>unsupported key spec: %v\<close>
  | UnsupportedKeyTypeRSA1024              \<comment> \<open>unsupported key type: KeyType_RSA_1024\<close>
  | UnknownKeyType                         \<comment> \<open>unknown key type\<close>
  | NilDereference                         \<comment> \<open>run-time panic: nil pointer dereference\<close>

subsection \<open>Mapping key types, key specs and signing algorithms\<close>

text \<open>
  The \<open>signerOpts\<close> argument of \<open>signingAlgorithmForKMS\<close> is an \<open>interface{}\<close> on which the
  code switches by type: a hash algorithm, PSS options (a pointer that may be nil), or
  anything else.
\<close>

record PSSOptions =
  pss_SaltLength :: int
  pss_HashAlgorithm :: HashAlgorithm

datatype SignerOpts =
    SignDataRequest_HashAlgorithm HashAlgorithm
  | SignDataRequest_PssOptions "PSSOptions option"
  | SignerOpts_other_type

definition selectSigningAlgorithm ::
  "KeyType \<Rightarrow> HashAlgorithm \<Rightarrow> bool \<Rightarrow> error + SigningAlgorithmSpec" where
  \<comment> \<open>the second \<open>switch\<close> of \<open>signingAlgorithmForKMS\<close>, cases in the source's order\<close>
  "selectSigningAlgorithm keyType hashAlgo isPSS =
    (let isRSA = (keyType = KeyType_RSA_2048 \<or> keyType = KeyType_RSA_4096) in
     if hashAlgo = HashAlgorithm_UNSPECIFIED_HASH_ALGORITHM then Inl HashAlgorithmRequired
     else if keyType = KeyType_EC_P256 \<and> hashAlgo = HashAlgorithm_SHA256
       then Inr SigningAlgorithmSpecEcdsaSha256
     else if keyType = KeyType_EC_P384 \<and> hashAlgo = HashAlgorithm_SHA384
       then Inr SigningAlgorithmSpecEcdsaSha384
     else if isRSA \<and> \<not> isPSS \<and> hashAlgo = HashAlgorithm_SHA256
       then Inr SigningAlgorithmSpecRsassaPkcs1V15Sha256
     else if isRSA \<and> \<not> isPSS \<and> hashAlgo = HashAlgorithm_SHA384
       then Inr SigningAlgorithmSpecRsassaPkcs1V15Sha384
     else if isRSA \<and> \<not> isPSS \<and> hashAlgo = HashAlgorithm_SHA512
       then Inr SigningAlgorithmSpecRsassaPkcs1V15Sha512
     else if isRSA \<and> isPSS \<and> hashAlgo = HashAlgorithm_SHA256
       then Inr SigningAlgorithmSpecRsassaPssSha256
     else if isRSA \<and> isPSS \<and> hashAlgo = HashAlgorithm_SHA384
       then Inr SigningAlgorithmSpecRsassaPssSha384
     else if isRSA \<and> isPSS \<and> hashAlgo = HashAlgorithm_SHA512
       then Inr SigningAlgorithmSpecRsassaPssSha512
     else Inl (UnsupportedCombination keyType hashAlgo))"

fun signingAlgorithmForKMS :: "KeyType \<Rightarrow> SignerOpts \<Rightarrow> error + SigningAlgorithmSpec" where
  "signingAlgorithmForKMS keyType (SignDataRequest_HashAlgorithm h) =
     selectSigningAlgorithm keyType h False"
| "signingAlgorithmForKMS keyType (SignDataRequest_PssOptions None) = Inl PSSOptionsRequired"
| "signingAlgorithmForKMS keyType (SignDataRequest_PssOptions (Some opts)) =
     selectSigningAlgorithm keyType (pss_HashAlgorithm opts) True"
| "signingAlgorithmForKMS keyType SignerOpts_other_type = Inl UnsupportedSignerOptsType"

definition keyTypeFromKeySpec :: "CustomerMasterKeySpec \<Rightarrow> error + KeyType" where
  "keyTypeFromKeySpec keySpec =
    (if keySpec = CustomerMasterKeySpecRsa2048 then Inr KeyType_RSA_2048
     else if keySpec = CustomerMasterKeySpecRsa4096 then Inr KeyType_RSA_4096
     else if keySpec = CustomerMasterKeySpecEccNistP256 then Inr KeyType_EC_P256
     else if keySpec = CustomerMasterKeySpecEccNistP384 then Inr KeyType_EC_P384
     else Inl (UnsupportedKeySpec keySpec))"

fun keySpecFromKeyType :: "KeyType \<Rightarrow> error + CustomerMasterKeySpec" where
  "keySpecFromKeyType KeyType_RSA_1024 = Inl UnsupportedKeyTypeRSA1024"
| "keySpecFromKeyType KeyType_RSA_2048 = Inr CustomerMasterKeySpecRsa2048"
| "keySpecFromKeyType KeyType_RSA_4096 = Inr CustomerMasterKeySpecRsa4096"
| "keySpecFromKeyType KeyType_EC_P256 = Inr CustomerMasterKeySpecEccNistP256"
| "keySpecFromKeyType KeyType_EC_P384 = Inr CustomerMasterKeySpecEccNistP384"
| "keySpecFromKeyType _ = Inl UnknownKeyType"

subsection \<open>The alias codec\<close>

text \<open>
  \<open>strings.Index s substr\<close>: the offset of the first occurrence of \<open>substr\<close> in \<open>s\<close>,
  \<open>None\<close> for Go's \<open>-1\<close>.
\<close>

fun Index :: "string \<Rightarrow> string \<Rightarrow> nat option" where
  "Index [] substr = (if substr = [] then Some 0 else None)"
| "Index (c # s) substr =
     (if prefix substr (c # s) then Some 0 else map_option Suc (Index s substr))"

text \<open>
  \<open>utf8.DecodeRuneInString\<close>, as far as its second result goes: the number of bytes of
  the UTF-8 sequence at the head of the string, 1 for a byte that begins no well-formed
  sequence, 0 for the empty string. A lead byte \<open>C2..DF\<close> asks for one continuation
  byte, \<open>E0..EF\<close> for two, \<open>F0..F4\<close> for three; the first continuation byte lies in
  \<open>80..BF\<close>, narrowed to \<open>A0..BF\<close> after \<open>E0\<close>, \<open>80..9F\<close> after \<open>ED\<close>, \<open>90..BF\<close> after \<open>F0\<close>
  and \<open>80..8F\<close> after \<open>F4\<close>; the others lie in \<open>80..BF\<close>.
\<close>

definition byte :: "char \<Rightarrow> nat" where
  "byte c = of_char c"

definition continuation :: "char \<Rightarrow> bool" where
  "continuation c = (128 \<le> byte c \<and> byte c \<le> 191)"

definition runeSize :: "string \<Rightarrow> nat" where
  "runeSize s =
    (case s of
       [] \<Rightarrow> 0
     | c0 # rest \<Rightarrow>
        (let b = byte c0 in
         if b < 194 \<or> 244 < b then 1
         else
          (let sz = (if b < 224 then 2 else if b < 240 then 3 else 4 :: nat);
               lo = (if b = 224 then 160 else if b = 240 then 144 else 128 :: nat);
               hi = (if b = 237 then 159 else if b = 244 then 143 else 191 :: nat)
           in if length s < sz then 1
              else if byte (rest ! 0) < lo \<or> hi < byte (rest ! 0) then 1
              else if sz \<le> 2 then 2
              else if \<not> continuation (rest ! 1) then 1
              else if sz \<le> 3 then 3
              else if \<not> continuation (rest ! 2) then 1
              else 4)))"

text \<open>
  \<open>explode s (-1)\<close> of package \<open>strings\<close>: the string cut into its UTF-8 sequences, a
  byte that begins no well-formed sequence being a piece of its own. (Older Go releases
  put the encoding of U+FFFD in the place of such a byte, except in the last piece; on
  well-formed UTF-8 all releases agree.)
\<close>

function explode :: "string \<Rightarrow> string list" where
  "explode s = (if s = [] then [] else take (runeSize s) s # explode (drop (runeSize s) s))"
  by pat_completeness auto
termination
proof (relation "measure length")
  show "wf (measure length)" by simp
next
  fix s :: string
  assume "s \<noteq> []"
  then have "0 < runeSize s"
    by (cases s) (simp_all add: runeSize_def Let_def)
  with \<open>s \<noteq> []\<close> show "(drop (runeSize s) s, s) \<in> measure length" by (cases s) simp_all
qed

declare explode.simps [simp del]

text \<open>
  \<open>strings.SplitAfter s sep\<close> is \<open>genSplit s sep (len sep) (-1)\<close>: with an empty
  separator the string is exploded; otherwise the loop cuts \<open>s\<close> after the leftmost
  occurrence of \<open>sep\<close> and goes on with the rest, until \<open>sep\<close> no longer occurs. The
  source runs the loop at most \<open>Count s sep\<close> times, which is the number of times it can
  run.
\<close>

function SplitAfter :: "string \<Rightarrow> string \<Rightarrow> string list" where
  "SplitAfter s sep =
    (if sep = [] then explode s
     else (case Index s sep of
             None \<Rightarrow> [s]
           | Some m \<Rightarrow> take (m + length sep) s # SplitAfter (drop (m + length sep) s) sep))"
  by pat_completeness auto
termination
proof (relation "measure (\<lambda>(s, sep). length s)")
  show "wf (measure (\<lambda>(s, sep). length s))" by simp
next
  fix s sep :: string and m :: nat
  assume sep: "sep \<noteq> []" and found: "Index s sep = Some m"
  have bound: "Index t sep = Some k \<Longrightarrow> k + length sep \<le> length t" for t k
  proof (induction t arbitrary: k)
    case Nil
    then show ?case by (simp split: if_splits)
  next
    case (Cons c t)
    show ?case
    proof (cases "prefix sep (c # t)")
      case True
      with Cons.prems have "k = 0" by simp
      moreover from True have "length sep \<le> length (c # t)" by (rule prefix_length_le)
      ultimately show ?thesis by simp
    next
      case False
      with Cons.prems obtain k' where "Index t sep = Some k'" "k = Suc k'" by auto
      with Cons.IH show ?thesis by fastforce
    qed
  qed
  from sep have "0 < length sep" by simp
  moreover from found have "m + length sep \<le> length s" by (rule bound)
  ultimately have "length s - (m + length sep) < length s" by arith
  then show "((drop (m + length sep) s, sep), (s, sep)) \<in> measure (\<lambda>(s, sep). length s)"
    by simp
qed

declare SplitAfter.simps [simp del]

definition spireKeyIDFromAlias :: "string \<Rightarrow> string \<Rightarrow> error + string" where
  \<comment> \<open>the first argument is \<open>p.keyPrefix\<close>\<close>
  "spireKeyIDFromAlias keyPrefix alias =
    (let tokens = SplitAfter alias keyPrefix in
     if length tokens \<noteq> 2 then Inl (AliasWithoutPrefix keyPrefix)
     else Inr (tokens ! 1))"

definition aliasFromSpireKeyID :: "string \<Rightarrow> string \<Rightarrow> string" where
  "aliasFromSpireKeyID keyPrefix spireKeyID = aliasPrefix @ keyPrefix @ spireKeyID"

definition descriptionFromSpireKeyID :: "string \<Rightarrow> string \<Rightarrow> string" where
  "descriptionFromSpireKeyID keyPrefix spireKeyID = keyPrefix @ spireKeyID"

subsection \<open>Key entries and the KMS client\<close>

type_synonym bytes = "8 word list"

record PublicKey =
  pk_Id :: string
  pk_Type :: KeyType
  pk_PkixData :: bytes

record keyEntry =
  KMSKeyID :: string
  Alias :: string
  PublicKey :: "PublicKey option"

text \<open>
  The parts of the SDK's inputs and outputs that the plugin writes or reads. A call of
  the client is logged as a \<open>kms_call\<close> carrying the fields of its input.
\<close>

record KeyMetadata =
  km_KeyId :: "string option"
  km_Enabled :: bool
  km_CustomerMasterKeySpec :: CustomerMasterKeySpec

record GetPublicKeyOutput =
  gpo_KeyId :: "string option"
  gpo_PublicKey :: bytes

record AliasListEntry =
  AliasName :: "string option"
  TargetKeyId :: "string option"

record ListAliasesOutput =
  Aliases :: "AliasListEntry list"
  NextMarker :: "string option"

definition KeyUsageTypeSignVerify :: string where
  "KeyUsageTypeSignVerify = ''SIGN_VERIFY''"
definition MessageTypeDigest :: string where
  "MessageTypeDigest = ''DIGEST''"

datatype kms_call =
    Call_CreateKey string string CustomerMasterKeySpec
      \<comment> \<open>Description, KeyUsage, CustomerMasterKeySpec\<close>
  | Call_GetPublicKey "string option"          \<comment> \<open>KeyId\<close>
  | Call_DescribeKey string                    \<comment> \<open>KeyId\<close>
  | Call_ListAliases "string option"           \<comment> \<open>Marker\<close>
  | Call_CreateAlias string string             \<comment> \<open>AliasName, TargetKeyId\<close>
  | Call_UpdateAlias string string             \<comment> \<open>AliasName, TargetKeyId\<close>
  | Call_ScheduleKeyDeletion string int        \<comment> \<open>KeyId, PendingWindowInDays\<close>
  | Call_Sign string bytes string SigningAlgorithmSpec
      \<comment> \<open>KeyId, Message, MessageType, SigningAlgorithm\<close>

text \<open>
  The \<open>kmsClient\<close> interface. The remote service is outside the plugin, so every
  operation is a function of the service's state \<open>'r\<close> that returns an error or an
  output together with the new state; nothing is assumed about what it returns. An
  operation that returns no error returns a non-nil output (the SDK's contract).
\<close>

record 'r kmsClient =
  kms_CreateKey :: "string \<Rightarrow> string \<Rightarrow> CustomerMasterKeySpec \<Rightarrow> 'r
                      \<Rightarrow> (rerr + KeyMetadata option) \<times> 'r"
  kms_GetPublicKey :: "string option \<Rightarrow> 'r \<Rightarrow> (rerr + GetPublicKeyOutput) \<times> 'r"
  kms_DescribeKey :: "string \<Rightarrow> 'r \<Rightarrow> (rerr + KeyMetadata option) \<times> 'r"
  kms_ListAliases :: "string option \<Rightarrow> 'r \<Rightarrow> (rerr + ListAliasesOutput) \<times> 'r"
  kms_CreateAlias :: "string \<Rightarrow> string \<Rightarrow> 'r \<Rightarrow> (rerr + unit) \<times> 'r"
  kms_UpdateAlias :: "string \<Rightarrow> string \<Rightarrow> 'r \<Rightarrow> (rerr + unit) \<times> 'r"
  kms_ScheduleKeyDeletion :: "string \<Rightarrow> int \<Rightarrow> 'r \<Rightarrow> (rerr + unit) \<times> 'r"
  kms_Sign :: "string \<Rightarrow> bytes \<Rightarrow> string \<Rightarrow> SigningAlgorithmSpec \<Rightarrow> 'r
                 \<Rightarrow> (rerr + bytes) \<times> 'r"

record Config =
  AccessKeyID :: string
  SecretAccessKey :: string
  Region :: string
  KeyPrefix :: string

subsection \<open>The plugin\<close>

text \<open>
  The state of the plugin and of what it acts on: the cache \<open>entries\<close>, the client
  (\<open>None\<close> until \<open>Configure\<close> has set it), the key prefix and the \<open>newClient\<close> hook are
  the fields of the Go struct; \<open>remote\<close> is the state of the service behind the client,
  \<open>calls\<close> the calls made on the client so far, oldest first, and \<open>spawned\<close> the
  goroutines that \<open>GenerateKey\<close> has started and that have not run yet, each with the
  key id and the pending window of the deletion it will schedule.
\<close>

record 'r Plugin =
  entries :: "string \<rightharpoonup> keyEntry"
  kmsClient :: "'r kmsClient option"
  keyPrefix :: string
  hooks_newClient :: "Config \<Rightarrow> rerr + 'r kmsClient"
  remote :: 'r
  calls :: "kms_call list"
  spawned :: "(string \<times> int) list"

definition newPlugin :: "(Config \<Rightarrow> rerr + 'r kmsClient) \<Rightarrow> 'r \<Rightarrow> 'r Plugin" where
  \<comment> \<open>the second argument is the state of the remote service when the plugin is built\<close>
  "newPlugin newClient r =
    \<lparr>entries = Map.empty, kmsClient = None, keyPrefix = [],
     hooks_newClient = newClient, remote = r, calls = [], spawned = []\<rparr>"

text \<open>
  A call on \<open>p.kmsClient\<close>: a method call on the nil interface panics; otherwise the
  operation runs on the remote state and the call is logged.
\<close>

datatype 'a reply = Nil_client | Failed rerr | Returned 'a

definition call ::
  "'r Plugin \<Rightarrow> kms_call \<Rightarrow> ('r kmsClient \<Rightarrow> 'r \<Rightarrow> (rerr + 'a) \<times> 'r) \<Rightarrow> 'a reply \<times> 'r Plugin" where
  "call p c op =
    (case kmsClient p of
       None \<Rightarrow> (Nil_client, p)
     | Some client \<Rightarrow>
        (case op client (remote p) of
           (Inl err, r') \<Rightarrow> (Failed err, p\<lparr>remote := r', calls := calls p @ [c]\<rparr>)
         | (Inr out, r') \<Rightarrow> (Returned out, p\<lparr>remote := r', calls := calls p @ [c]\<rparr>)))"

definition setEntry :: "'r Plugin \<Rightarrow> string \<Rightarrow> keyEntry \<Rightarrow> (error + unit) \<times> 'r Plugin" where
  "setEntry p spireKeyID entry =
    (if spireKeyID = [] then (Inl SpireKeyIDRequired, p)
     else if KMSKeyID entry = [] then (Inl KMSKeyIDRequired, p)
     else if Alias entry = [] then (Inl AliasRequired, p)
     else (case PublicKey entry of
             None \<Rightarrow> (Inl PublicKeyRequired, p)
           | Some pk \<Rightarrow>
              if pk_Id pk = [] then (Inl PublicKeyIdRequired, p)
              else if pk_Type pk = KeyType_UNSPECIFIED_KEY_TYPE then (Inl PublicKeyTypeRequired, p)
              else if pk_PkixData pk = [] then (Inl PublicKeyPkixDataRequired, p)
              else (Inr (), p\<lparr>entries := (entries p)(spireKeyID \<mapsto> entry)\<rparr>)))"

definition entry :: "'r Plugin \<Rightarrow> string \<Rightarrow> keyEntry option" where
  \<comment> \<open>the pair (value, hasKey) of the source, as an option\<close>
  "entry p spireKeyID = entries p spireKeyID"

definition clonePublicKey :: "PublicKey option \<Rightarrow> PublicKey option" where
  "clonePublicKey publicKey = publicKey"

definition createKey :: "'r Plugin \<Rightarrow> string \<Rightarrow> KeyType \<Rightarrow> (error + keyEntry) \<times> 'r Plugin" where
  "createKey p spireKeyID keyType =
    (let description = descriptionFromSpireKeyID (keyPrefix p) spireKeyID in
     case keySpecFromKeyType keyType of
       Inl e \<Rightarrow> (Inl e, p)
     | Inr keySpec \<Rightarrow>
        (case call p (Call_CreateKey description KeyUsageTypeSignVerify keySpec)
                (\<lambda>c. kms_CreateKey c description KeyUsageTypeSignVerify keySpec) of
           (Nil_client, p1) \<Rightarrow> (Inl NilDereference, p1)
         | (Failed err, p1) \<Rightarrow> (Inl (FailedToCreateKey err), p1)
         | (Returned None, p1) \<Rightarrow> (Inl NilDereference, p1)
         | (Returned (Some md), p1) \<Rightarrow>
            (case call p1 (Call_GetPublicKey (km_KeyId md))
                    (\<lambda>c. kms_GetPublicKey c (km_KeyId md)) of
               (Nil_client, p2) \<Rightarrow> (Inl NilDereference, p2)
             | (Failed err, p2) \<Rightarrow> (Inl (FailedToGetPublicKey err), p2)
             | (Returned pub, p2) \<Rightarrow>
                (case gpo_KeyId pub of
                   None \<Rightarrow> (Inl NilDereference, p2)
                 | Some kid \<Rightarrow>
                    (Inr \<lparr>KMSKeyID = kid,
                          Alias = aliasFromSpireKeyID (keyPrefix p) spireKeyID,
                          PublicKey = Some \<lparr>pk_Id = spireKeyID, pk_Type = keyType,
                                            pk_PkixData = gpo_PublicKey pub\<rparr>\<rparr>, p2)))))"

definition buildKeyEntry ::
  "'r Plugin \<Rightarrow> string \<Rightarrow> string \<Rightarrow> (error + keyEntry option) \<times> 'r Plugin" where
  "buildKeyEntry p alias awsKeyID =
    (case call p (Call_DescribeKey alias) (\<lambda>c. kms_DescribeKey c alias) of
       (Nil_client, p1) \<Rightarrow> (Inl NilDereference, p1)
     | (Failed err, p1) \<Rightarrow> (Inl (FailedToDescribeKey err), p1)
     | (Returned None, p1) \<Rightarrow> (Inl NilDereference, p1)
     | (Returned (Some md), p1) \<Rightarrow>
        if \<not> km_Enabled md then (Inr None, p1)
        else (case spireKeyIDFromAlias (keyPrefix p) alias of
                Inl _ \<Rightarrow> (Inr None, p1)
              | Inr spireKeyID \<Rightarrow>
                 (case keyTypeFromKeySpec (km_CustomerMasterKeySpec md) of
                    Inl _ \<Rightarrow> (Inr None, p1)
                  | Inr keyType \<Rightarrow>
                     (case call p1 (Call_GetPublicKey (Some alias))
                             (\<lambda>c. kms_GetPublicKey c (Some alias)) of
                        (Nil_client, p2) \<Rightarrow> (Inl NilDereference, p2)
                      | (Failed err, p2) \<Rightarrow> (Inl (FailedToGetPublicKey err), p2)
                      | (Returned pub, p2) \<Rightarrow>
                         (Inr (Some \<lparr>KMSKeyID = awsKeyID, Alias = alias,
                                     PublicKey = Some \<lparr>pk_Id = spireKeyID, pk_Type = keyType,
                                                       pk_PkixData = gpo_PublicKey pub\<rparr>\<rparr>),
                          p2)))))"

text \<open>
  The body of the \<open>for ... range aliasesResp.Aliases\<close> loop of \<open>fetchAliasesPage\<close>, as a
  recursion over the page. An error of \<open>buildKeyEntry\<close> is wrapped; a panic is not an
  error value and unwinds as it is.
\<close>

fun loadAliases :: "'r Plugin \<Rightarrow> AliasListEntry list \<Rightarrow> (error + unit) \<times> 'r Plugin" where
  "loadAliases p [] = (Inr (), p)"
| "loadAliases p (alias # rest) =
    (case (AliasName alias, TargetKeyId alias) of
       (Some name, Some target) \<Rightarrow>
        (case buildKeyEntry p name target of
           (Inl err, p1) \<Rightarrow>
             (if err = NilDereference then (Inl NilDereference, p1)
              else (Inl (FailedToProcessKMSKey err), p1))
         | (Inr None, p1) \<Rightarrow> loadAliases p1 rest
         | (Inr (Some e), p1) \<Rightarrow>
            (case PublicKey e of
               None \<Rightarrow> (Inl NilDereference, p1)
             | Some pk \<Rightarrow>
                (case setEntry p1 (pk_Id pk) e of
                   (Inl err, p2) \<Rightarrow> (Inl err, p2)
                 | (Inr _, p2) \<Rightarrow> loadAliases p2 rest)))
     | _ \<Rightarrow> loadAliases p rest)"

definition fetchAliasesPage ::
  "'r Plugin \<Rightarrow> string option \<Rightarrow> (error + string option) \<times> 'r Plugin" where
  "fetchAliasesPage p marker =
    (case call p (Call_ListAliases marker) (\<lambda>c. kms_ListAliases c marker) of
       (Nil_client, p1) \<Rightarrow> (Inl NilDereference, p1)
     | (Failed err, p1) \<Rightarrow> (Inl (FailedToFetchKeys err), p1)
     | (Returned aliasesResp, p1) \<Rightarrow>
        (case loadAliases p1 (Aliases aliasesResp) of
           (Inl err, p2) \<Rightarrow> (Inl err, p2)
         | (Inr _, p2) \<Rightarrow> (Inr (NextMarker aliasesResp), p2)))"

text \<open>
  \<open>validateConfig\<close>. The HCL decoder is a library; it is the parameter \<open>decode\<close>, which
  gives the decoded document or the decoder's error.
\<close>

definition validateConfig :: "(string \<Rightarrow> rerr + Config) \<Rightarrow> string \<Rightarrow> error + Config" where
  "validateConfig decode c =
    (case decode c of
       Inl err \<Rightarrow> Inl (UnableToDecodeConfiguration err)
     | Inr config \<Rightarrow>
        if Region config = [] then Inl MissingRegion
        else if KeyPrefix config = [] then Inr (config\<lparr>KeyPrefix := defaultKeyPrefix\<rparr>)
        else Inr config)"

text \<open>
  The paging loop of \<open>Configure\<close> runs until a page comes without a next marker, which a
  service may never send; the first argument bounds the number of pages fetched, and
  \<open>None\<close> is a loop that has not ended within the bound.
\<close>

fun fetchAllPages ::
  "nat \<Rightarrow> 'r Plugin \<Rightarrow> string option \<Rightarrow> ((error + unit) \<times> 'r Plugin) option" where
  "fetchAllPages 0 p nextMarker = None"
| "fetchAllPages (Suc fuel) p nextMarker =
    (case fetchAliasesPage p nextMarker of
       (Inl err, p1) \<Rightarrow> Some (Inl err, p1)
     | (Inr None, p1) \<Rightarrow> Some (Inr (), p1)
     | (Inr (Some m), p1) \<Rightarrow> fetchAllPages fuel p1 (Some m))"

text \<open>
  \<open>Configure\<close>. When the \<open>newClient\<close> hook fails, the client it returns with the error
  is taken to be nil.
\<close>

definition Configure ::
  "nat \<Rightarrow> (string \<Rightarrow> rerr + Config) \<Rightarrow> 'r Plugin \<Rightarrow> string
     \<Rightarrow> ((error + unit) \<times> 'r Plugin) option" where
  "Configure fuel decode p configuration =
    (case validateConfig decode configuration of
       Inl err \<Rightarrow> Some (Inl err, p)
     | Inr config \<Rightarrow>
        (let p1 = p\<lparr>keyPrefix := KeyPrefix config\<rparr> in
         case hooks_newClient p1 config of
           Inl err \<Rightarrow> Some (Inl (FailedToCreateClient err), p1\<lparr>kmsClient := None\<rparr>)
         | Inr client \<Rightarrow> fetchAllPages fuel (p1\<lparr>kmsClient := Some client\<rparr>) None))"

text \<open>
  \<open>GenerateKey\<close>. On rotation the source starts a goroutine that calls
  \<open>ScheduleKeyDeletion\<close> for the old key, assigns the error of that call to the variable
  \<open>err\<close> of the \<open>GenerateKey\<close> call that started it, and logs it when it is not nil. The
  goroutine does not hold the lock, and \<open>GenerateKey\<close> assigns \<open>err\<close> once more and
  reads it after having started the goroutine (\<open>err = p.setEntry(...)\<close> and the test
  that follows), so the two race on \<open>err\<close>.

  The model covers the executions in which \<open>GenerateKey\<close> returns with the goroutine
  still to run: the goroutine is added to \<open>spawned\<close>, and \<open>runSpawned\<close> runs the oldest
  spawned goroutine at a later time, when the variable it assigns is no longer read.
  An execution in which the goroutine assigns \<open>err\<close> between \<open>err = p.setEntry(...)\<close> and
  the last reading of \<open>err\<close> is not modelled; what \<open>GenerateKey\<close> returns in it is not
  described by \<open>GenerateKey\<close> below.
\<close>

definition admitGenerated ::
  "'r Plugin \<Rightarrow> string \<Rightarrow> keyEntry \<Rightarrow> (error + PublicKey option) \<times> 'r Plugin" where
  \<comment> \<open>the end of \<open>GenerateKey\<close>, from \<open>p.setEntry\<close> on\<close>
  "admitGenerated p spireKeyID newEntry =
    (case setEntry p spireKeyID newEntry of
       (Inl err, p3) \<Rightarrow> (Inl err, p3)
     | (Inr _, p3) \<Rightarrow> (Inr (clonePublicKey (PublicKey newEntry)), p3))"

definition GenerateKey ::
  "'r Plugin \<Rightarrow> string \<Rightarrow> KeyType \<Rightarrow> (error + PublicKey option) \<times> 'r Plugin" where
  \<comment> \<open>the arguments are \<open>req.KeyId\<close> and \<open>req.KeyType\<close>\<close>
  "GenerateKey p KeyId KeyType =
    (if KeyId = [] then (Inl KeyIdRequired, p)
     else if KeyType = KeyType_UNSPECIFIED_KEY_TYPE then (Inl KeyTypeRequired, p)
     else
      (let spireKeyID = KeyId in
       case createKey p spireKeyID KeyType of
         (Inl err, p1) \<Rightarrow> (Inl err, p1)
       | (Inr newEntry, p1) \<Rightarrow>
          (case entry p1 spireKeyID of
             None \<Rightarrow>
              (case call p1 (Call_CreateAlias (Alias newEntry) (KMSKeyID newEntry))
                      (\<lambda>c. kms_CreateAlias c (Alias newEntry) (KMSKeyID newEntry)) of
                 (Nil_client, p2) \<Rightarrow> (Inl NilDereference, p2)
               | (Failed err, p2) \<Rightarrow> (Inl (FailedToCreateAlias err), p2)
               | (Returned _, p2) \<Rightarrow> admitGenerated p2 spireKeyID newEntry)
           | Some oldEntry \<Rightarrow>
              (case call p1 (Call_UpdateAlias (Alias newEntry) (KMSKeyID newEntry))
                      (\<lambda>c. kms_UpdateAlias c (Alias newEntry) (KMSKeyID newEntry)) of
                 (Nil_client, p2) \<Rightarrow> (Inl NilDereference, p2)
               | (Failed err, p2) \<Rightarrow> (Inl (FailedToUpdateAlias err), p2)
               | (Returned _, p2) \<Rightarrow>
                  admitGenerated (p2\<lparr>spawned := spawned p2 @ [(KMSKeyID oldEntry, 7)]\<rparr>)
                    spireKeyID newEntry))))"

definition runSpawned :: "'r Plugin \<Rightarrow> 'r Plugin" where
  "runSpawned p =
    (case spawned p of
       [] \<Rightarrow> p
     | (keyId, days) # rest \<Rightarrow>
        snd (call (p\<lparr>spawned := rest\<rparr>) (Call_ScheduleKeyDeletion keyId days)
               (\<lambda>c. kms_ScheduleKeyDeletion c keyId days)))"

text \<open>
  \<open>SignData\<close>: the arguments are \<open>req.KeyId\<close>, \<open>req.SignerOpts\<close> (\<open>None\<close> for a nil
  interface) and \<open>req.Data\<close>.
\<close>

definition SignData ::
  "'r Plugin \<Rightarrow> string \<Rightarrow> SignerOpts option \<Rightarrow> bytes \<Rightarrow> (error + bytes) \<times> 'r Plugin" where
  "SignData p KeyId signerOpts Data =
    (if KeyId = [] then (Inl KeyIdRequired, p)
     else (case signerOpts of
             None \<Rightarrow> (Inl SignerOptsRequired, p)
           | Some opts \<Rightarrow>
              (case entry p KeyId of
                 None \<Rightarrow> (Inl (NoSuchKey KeyId), p)
               | Some keyEntry \<Rightarrow>
                  (case PublicKey keyEntry of
                     None \<Rightarrow> (Inl NilDereference, p)
                   | Some pk \<Rightarrow>
                      (case signingAlgorithmForKMS (pk_Type pk) opts of
                         Inl err \<Rightarrow> (Inl err, p)
                       | Inr signingAlgo \<Rightarrow>
                          (case call p (Call_Sign (Alias keyEntry) Data MessageTypeDigest signingAlgo)
                                  (\<lambda>c. kms_Sign c (Alias keyEntry) Data MessageTypeDigest signingAlgo) of
                             (Nil_client, p1) \<Rightarrow> (Inl NilDereference, p1)
                           | (Failed err, p1) \<Rightarrow> (Inl (FailedToSign err), p1)
                           | (Returned signature, p1) \<Rightarrow> (Inr signature, p1)))))))"

definition GetPublicKey :: "'r Plugin \<Rightarrow> string \<Rightarrow> error + PublicKey option" where
  "GetPublicKey p KeyId =
    (if KeyId = [] then Inl KeyIdRequired
     else (case entry p KeyId of
             None \<Rightarrow> Inl (NoSuchKey KeyId)
           | Some e \<Rightarrow> Inr (clonePublicKey (PublicKey e))))"

subsection \<open>A simulated service, for running the model on concrete inputs\<close>

text \<open>
  The state of the simulated service is the number of keys created so far; the key ids
  it issues are pairwise distinct. A few alias names stand for keys in particular
  conditions. The flag tells whether creating and updating an alias is permitted.
\<close>

definition simKeyId :: "nat \<Rightarrow> string" where
  "simKeyId n = replicate (Suc n) (CHR ''k'')"

definition simAliases :: "AliasListEntry list" where
  "simAliases =
    [\<lparr>AliasName = Some ''alias/SPIRE_SERVER_KEY/disabled'', TargetKeyId = Some ''k1''\<rparr>,
     \<lparr>AliasName = Some ''alias/OTHER/foreign'', TargetKeyId = Some ''k2''\<rparr>,
     \<lparr>AliasName = Some ''alias/SPIRE_SERVER_KEY/symmetric'', TargetKeyId = Some ''k3''\<rparr>,
     \<lparr>AliasName = Some ''alias/SPIRE_SERVER_KEY/unreadable'', TargetKeyId = Some ''k4''\<rparr>]"

definition simClient :: "bool \<Rightarrow> AliasListEntry list \<Rightarrow> nat kmsClient" where
  "simClient aliasesPermitted listing =
    \<lparr>kms_CreateKey = (\<lambda>description usage keySpec n.
        (Inr (Some \<lparr>km_KeyId = Some (simKeyId n), km_Enabled = True,
                     km_CustomerMasterKeySpec = keySpec\<rparr>), Suc n)),
     kms_GetPublicKey = (\<lambda>keyId n.
        (if keyId = Some ''alias/SPIRE_SERVER_KEY/unreadable'' then Inl ''access denied''
         else Inr \<lparr>gpo_KeyId = keyId, gpo_PublicKey = [48, 89]\<rparr>, n)),
     kms_DescribeKey = (\<lambda>keyId n.
        (if keyId = ''alias/SPIRE_SERVER_KEY/missing'' then Inl ''not found''
         else Inr (Some \<lparr>km_KeyId = Some keyId,
                         km_Enabled = (keyId \<noteq> ''alias/SPIRE_SERVER_KEY/disabled''),
                         km_CustomerMasterKeySpec =
                           (if keyId = ''alias/SPIRE_SERVER_KEY/symmetric''
                            then ''SYMMETRIC_DEFAULT'' else ''ECC_NIST_P256'')\<rparr>), n)),
     kms_ListAliases = (\<lambda>marker n. (Inr \<lparr>Aliases = listing, NextMarker = None\<rparr>, n)),
     kms_CreateAlias = (\<lambda>aliasName targetKeyId n.
        (if aliasesPermitted then Inr () else Inl ''access denied'', n)),
     kms_UpdateAlias = (\<lambda>aliasName targetKeyId n.
        (if aliasesPermitted then Inr () else Inl ''access denied'', n)),
     kms_ScheduleKeyDeletion = (\<lambda>keyId days n. (Inr (), n)),
     kms_Sign = (\<lambda>keyId message messageType algorithm n. (Inr message, n))\<rparr>"

definition simDecode :: "string \<Rightarrow> rerr + Config" where
  \<comment> \<open>every document decodes to a configuration with a region and no key prefix\<close>
  "simDecode c = Inr \<lparr>AccessKeyID = [], SecretAccessKey = [], Region = ''us-east-1'',
                      KeyPrefix = []\<rparr>"

definition simPlugin :: "bool \<Rightarrow> AliasListEntry list \<Rightarrow> nat Plugin" where
  \<comment> \<open>a plugin as \<open>Configure\<close> leaves it when the listing is empty\<close>
  "simPlugin aliasesPermitted listing =
    (newPlugin (\<lambda>config. Inr (simClient aliasesPermitted listing)) 0)
      \<lparr>kmsClient := Some (simClient aliasesPermitted listing), keyPrefix := defaultKeyPrefix\<rparr>"

definition simEntry :: keyEntry where
  "simEntry = \<lparr>KMSKeyID = ''k0'', Alias = ''alias/SPIRE_SERVER_KEY/old'',
     PublicKey = Some \<lparr>pk_Id = ''old'', pk_Type = KeyType_EC_P256, pk_PkixData = [48, 89]\<rparr>\<rparr>"

text \<open>
  A service that gives every key it creates the same key id, and a plugin configured
  against it.
\<close>

definition simSameIdClient :: "nat kmsClient" where
  "simSameIdClient =
    (simClient True [])
      \<lparr>kms_CreateKey := (\<lambda>description usage keySpec n.
         (Inr (Some \<lparr>km_KeyId = Some ''same'', km_Enabled = True,
                      km_CustomerMasterKeySpec = keySpec\<rparr>), Suc n))\<rparr>"

definition simSameIdPlugin :: "nat Plugin" where
  "simSameIdPlugin =
    (newPlugin (\<lambda>config. Inr simSameIdClient) 0)
      \<lparr>kmsClient := Some simSameIdClient, keyPrefix := defaultKeyPrefix\<rparr>"

subsection \<open>Auxiliary notions for stating the properties of reconciliation\<close>

text \<open>
  \<open>afterPages k p marker\<close>: the plugin and the marker with which the paging loop of
  \<open>Configure\<close>, started on \<open>p\<close> with \<open>marker\<close>, asks for its page number \<open>k\<close> (counting
  from 0), when each of the pages before loaded without error and named a next page.
\<close>

fun afterPages ::
  "nat \<Rightarrow> 'r Plugin \<Rightarrow> string option \<Rightarrow> ('r Plugin \<times> string option) option" where
  "afterPages 0 p marker = Some (p, marker)"
| "afterPages (Suc k) p marker =
    (case fetchAliasesPage p marker of
       (Inr (Some m), p1) \<Rightarrow> afterPages k p1 (Some m)
     | _ \<Rightarrow> None)"

text \<open>\<open>carryOver m p\<close>: the plugin \<open>p\<close> with the entries of \<open>m\<close> under those of its cache.\<close>

definition carryOver :: "(string \<rightharpoonup> keyEntry) \<Rightarrow> 'r Plugin \<Rightarrow> 'r Plugin" where
  "carryOver m p = p\<lparr>entries := m ++ entries p\<rparr>"

definition simFresh :: "AliasListEntry list \<Rightarrow> nat Plugin" where
  \<comment> \<open>a new plugin, not configured yet, whose service lists the given aliases\<close>
  "simFresh listing = newPlugin (\<lambda>config. Inr (simClient True listing)) 0"

section \<open>Properties\<close>

lemmas kms_constants =
  CustomerMasterKeySpecRsa2048_def CustomerMasterKeySpecRsa4096_def
  CustomerMasterKeySpecEccNistP256_def CustomerMasterKeySpecEccNistP384_def
  SigningAlgorithmSpecEcdsaSha256_def SigningAlgorithmSpecEcdsaSha384_def
  SigningAlgorithmSpecRsassaPkcs1V15Sha256_def SigningAlgorithmSpecRsassaPkcs1V15Sha384_def
  SigningAlgorithmSpecRsassaPkcs1V15Sha512_def SigningAlgorithmSpecRsassaPssSha256_def
  SigningAlgorithmSpecRsassaPssSha384_def SigningAlgorithmSpecRsassaPssSha512_def

subsection \<open>Key types and key specs\<close>

text \<open>
  Claim C8. \<open>keySpecFromKeyType\<close> and \<open>keyTypeFromKeySpec\<close> are inverse to each other on
  the four supported key types and their four key specs; \<open>keySpecFromKeyType\<close> fails for
  \<open>RSA_1024\<close> and for every other key type (the unspecified one and unrecognized
  values); \<open>keyTypeFromKeySpec\<close> fails for every key spec other than the four.
\<close>

theorem keySpec_keyType_inverse:
  "(\<forall>keyType \<in> {KeyType_RSA_2048, KeyType_RSA_4096, KeyType_EC_P256, KeyType_EC_P384}.
      \<exists>keySpec. keySpecFromKeyType keyType = Inr keySpec \<and> keyTypeFromKeySpec keySpec = Inr keyType)
   \<and> (\<forall>keySpec \<in> {CustomerMasterKeySpecRsa2048, CustomerMasterKeySpecRsa4096,
                    CustomerMasterKeySpecEccNistP256, CustomerMasterKeySpecEccNistP384}.
      \<exists>keyType. keyTypeFromKeySpec keySpec = Inr keyType \<and> keySpecFromKeyType keyType = Inr keySpec)
   \<and> keySpecFromKeyType KeyType_RSA_1024 = Inl UnsupportedKeyTypeRSA1024
   \<and> (\<forall>keyType. keyType \<notin> {KeyType_RSA_1024, KeyType_RSA_2048, KeyType_RSA_4096,
                              KeyType_EC_P256, KeyType_EC_P384}
        \<longrightarrow> keySpecFromKeyType keyType = Inl UnknownKeyType)
   \<and> (\<forall>keySpec. keySpec \<notin> {CustomerMasterKeySpecRsa2048, CustomerMasterKeySpecRsa4096,
                              CustomerMasterKeySpecEccNistP256, CustomerMasterKeySpecEccNistP384}
        \<longrightarrow> keyTypeFromKeySpec keySpec = Inl (UnsupportedKeySpec keySpec))"
proof (intro conjI)
  show "\<forall>keyType \<in> {KeyType_RSA_2048, KeyType_RSA_4096, KeyType_EC_P256, KeyType_EC_P384}.
      \<exists>keySpec. keySpecFromKeyType keyType = Inr keySpec \<and> keyTypeFromKeySpec keySpec = Inr keyType"
    by (simp add: keyTypeFromKeySpec_def kms_constants)
  show "\<forall>keySpec \<in> {CustomerMasterKeySpecRsa2048, CustomerMasterKeySpecRsa4096,
                    CustomerMasterKeySpecEccNistP256, CustomerMasterKeySpecEccNistP384}.
      \<exists>keyType. keyTypeFromKeySpec keySpec = Inr keyType \<and> keySpecFromKeyType keyType = Inr keySpec"
    by (simp add: keyTypeFromKeySpec_def kms_constants)
  show "keySpecFromKeyType KeyType_RSA_1024 = Inl UnsupportedKeyTypeRSA1024" by simp
  show "\<forall>keyType. keyType \<notin> {KeyType_RSA_1024, KeyType_RSA_2048, KeyType_RSA_4096,
                              KeyType_EC_P256, KeyType_EC_P384}
        \<longrightarrow> keySpecFromKeyType keyType = Inl UnknownKeyType"
  proof (intro allI impI)
    fix keyType
    assume "keyType \<notin> {KeyType_RSA_1024, KeyType_RSA_2048, KeyType_RSA_4096,
                              KeyType_EC_P256, KeyType_EC_P384}"
    then show "keySpecFromKeyType keyType = Inl UnknownKeyType"
      by (cases keyType) simp_all
  qed
  show "\<forall>keySpec. keySpec \<notin> {CustomerMasterKeySpecRsa2048, CustomerMasterKeySpecRsa4096,
                              CustomerMasterKeySpecEccNistP256, CustomerMasterKeySpecEccNistP384}
        \<longrightarrow> keyTypeFromKeySpec keySpec = Inl (UnsupportedKeySpec keySpec)"
    by (simp add: keyTypeFromKeySpec_def)
qed

theorem keySpec_keyType_inverse_witness:
  "keyTypeFromKeySpec CustomerMasterKeySpecEccNistP384 = Inr KeyType_EC_P384
   \<and> keySpecFromKeyType KeyType_EC_P384 = Inr CustomerMasterKeySpecEccNistP384
   \<and> keySpecFromKeyType (KeyType_other 9) = Inl UnknownKeyType
   \<and> keySpecFromKeyType KeyType_UNSPECIFIED_KEY_TYPE = Inl UnknownKeyType
   \<and> keyTypeFromKeySpec ''SYMMETRIC_DEFAULT'' = Inl (UnsupportedKeySpec ''SYMMETRIC_DEFAULT'')"
  using keySpec_keyType_inverse
  by (auto simp: kms_constants)

subsection \<open>Signing algorithms\<close>

text \<open>
  Claim C5, as stated, fails: for an EC key the padding is not looked at, so the triple
  (EC_P256, SHA256, PSS), which is not among the mappings the claim lists, does not fail
  but gives ECDSA-SHA256.
\<close>

theorem signingAlgorithm_EC_ignores_padding:
  "signingAlgorithmForKMS KeyType_EC_P256
     (SignDataRequest_PssOptions
        (Some \<lparr>pss_SaltLength = 32, pss_HashAlgorithm = HashAlgorithm_SHA256\<rparr>))
   = Inr SigningAlgorithmSpecEcdsaSha256"
  by (simp add: selectSigningAlgorithm_def)

text \<open>
  Claim C5, amended. \<open>signingAlgorithmForKMS\<close> gives ECDSA-SHA256 for an EC_P256 key
  with SHA256 and ECDSA-SHA384 for an EC_P384 key with SHA384, whether the signer
  options are a plain hash algorithm or PSS options; for an RSA_2048 or RSA_4096 key
  with SHA256, SHA384 or SHA512 it gives the PKCS1v15 spec of that hash for a plain
  hash algorithm and the PSS spec of that hash for PSS options (six RSA specs; the
  eight specs are pairwise distinct); it fails with "hash algorithm is required" when
  the hash algorithm is unspecified, and with "unsupported combination" for every other
  pair of key type and hash algorithm.
\<close>

theorem signingAlgorithm_table:
  "(\<forall>opts. opts \<in> {SignDataRequest_HashAlgorithm HashAlgorithm_SHA256,
                   SignDataRequest_PssOptions
                     (Some \<lparr>pss_SaltLength = salt, pss_HashAlgorithm = HashAlgorithm_SHA256\<rparr>)}
       \<longrightarrow> signingAlgorithmForKMS KeyType_EC_P256 opts = Inr SigningAlgorithmSpecEcdsaSha256)
   \<and> (\<forall>opts. opts \<in> {SignDataRequest_HashAlgorithm HashAlgorithm_SHA384,
                   SignDataRequest_PssOptions
                     (Some \<lparr>pss_SaltLength = salt, pss_HashAlgorithm = HashAlgorithm_SHA384\<rparr>)}
       \<longrightarrow> signingAlgorithmForKMS KeyType_EC_P384 opts = Inr SigningAlgorithmSpecEcdsaSha384)
   \<and> (\<forall>keyType \<in> {KeyType_RSA_2048, KeyType_RSA_4096}.
        signingAlgorithmForKMS keyType (SignDataRequest_HashAlgorithm HashAlgorithm_SHA256)
          = Inr SigningAlgorithmSpecRsassaPkcs1V15Sha256
      \<and> signingAlgorithmForKMS keyType (SignDataRequest_HashAlgorithm HashAlgorithm_SHA384)
          = Inr SigningAlgorithmSpecRsassaPkcs1V15Sha384
      \<and> signingAlgorithmForKMS keyType (SignDataRequest_HashAlgorithm HashAlgorithm_SHA512)
          = Inr SigningAlgorithmSpecRsassaPkcs1V15Sha512
      \<and> signingAlgorithmForKMS keyType (SignDataRequest_PssOptions
            (Some \<lparr>pss_SaltLength = salt, pss_HashAlgorithm = HashAlgorithm_SHA256\<rparr>))
          = Inr SigningAlgorithmSpecRsassaPssSha256
      \<and> signingAlgorithmForKMS keyType (SignDataRequest_PssOptions
            (Some \<lparr>pss_SaltLength = salt, pss_HashAlgorithm = HashAlgorithm_SHA384\<rparr>))
          = Inr SigningAlgorithmSpecRsassaPssSha384
      \<and> signingAlgorithmForKMS keyType (SignDataRequest_PssOptions
            (Some \<lparr>pss_SaltLength = salt, pss_HashAlgorithm = HashAlgorithm_SHA512\<rparr>))
          = Inr SigningAlgorithmSpecRsassaPssSha512)
   \<and> distinct [SigningAlgorithmSpecEcdsaSha256, SigningAlgorithmSpecEcdsaSha384,
        SigningAlgorithmSpecRsassaPkcs1V15Sha256, SigningAlgorithmSpecRsassaPkcs1V15Sha384,
        SigningAlgorithmSpecRsassaPkcs1V15Sha512, SigningAlgorithmSpecRsassaPssSha256,
        SigningAlgorithmSpecRsassaPssSha384, SigningAlgorithmSpecRsassaPssSha512]
   \<and> (\<forall>keyType opts hashAlgo.
         (opts = SignDataRequest_HashAlgorithm hashAlgo
          \<or> opts = SignDataRequest_PssOptions
                     (Some \<lparr>pss_SaltLength = salt, pss_HashAlgorithm = hashAlgo\<rparr>))
         \<longrightarrow> (hashAlgo = HashAlgorithm_UNSPECIFIED_HASH_ALGORITHM
                \<longrightarrow> signingAlgorithmForKMS keyType opts = Inl HashAlgorithmRequired)
           \<and> (hashAlgo \<noteq> HashAlgorithm_UNSPECIFIED_HASH_ALGORITHM
                \<and> (keyType, hashAlgo) \<noteq> (KeyType_EC_P256, HashAlgorithm_SHA256)
                \<and> (keyType, hashAlgo) \<noteq> (KeyType_EC_P384, HashAlgorithm_SHA384)
                \<and> \<not> (keyType \<in> {KeyType_RSA_2048, KeyType_RSA_4096}
                       \<and> hashAlgo \<in> {HashAlgorithm_SHA256, HashAlgorithm_SHA384,
                                      HashAlgorithm_SHA512})
                \<longrightarrow> signingAlgorithmForKMS keyType opts
                      = Inl (UnsupportedCombination keyType hashAlgo)))"
proof (intro conjI)
  show "\<forall>opts. opts \<in> {SignDataRequest_HashAlgorithm HashAlgorithm_SHA256,
                   SignDataRequest_PssOptions
                     (Some \<lparr>pss_SaltLength = salt, pss_HashAlgorithm = HashAlgorithm_SHA256\<rparr>)}
       \<longrightarrow> signingAlgorithmForKMS KeyType_EC_P256 opts = Inr SigningAlgorithmSpecEcdsaSha256"
    by (auto simp: selectSigningAlgorithm_def)
  show "\<forall>opts. opts \<in> {SignDataRequest_HashAlgorithm HashAlgorithm_SHA384,
                   SignDataRequest_PssOptions
                     (Some \<lparr>pss_SaltLength = salt, pss_HashAlgorithm = HashAlgorithm_SHA384\<rparr>)}
       \<longrightarrow> signingAlgorithmForKMS KeyType_EC_P384 opts = Inr SigningAlgorithmSpecEcdsaSha384"
    by (auto simp: selectSigningAlgorithm_def)
  show "\<forall>keyType \<in> {KeyType_RSA_2048, KeyType_RSA_4096}.
        signingAlgorithmForKMS keyType (SignDataRequest_HashAlgorithm HashAlgorithm_SHA256)
          = Inr SigningAlgorithmSpecRsassaPkcs1V15Sha256
      \<and> signingAlgorithmForKMS keyType (SignDataRequest_HashAlgorithm HashAlgorithm_SHA384)
          = Inr SigningAlgorithmSpecRsassaPkcs1V15Sha384
      \<and> signingAlgorithmForKMS keyType (SignDataRequest_HashAlgorithm HashAlgorithm_SHA512)
          = Inr SigningAlgorithmSpecRsassaPkcs1V15Sha512
      \<and> signingAlgorithmForKMS keyType (SignDataRequest_PssOptions
            (Some \<lparr>pss_SaltLength = salt, pss_HashAlgorithm = HashAlgorithm_SHA256\<rparr>))
          = Inr SigningAlgorithmSpecRsassaPssSha256
      \<and> signingAlgorithmForKMS keyType (SignDataRequest_PssOptions
            (Some \<lparr>pss_SaltLength = salt, pss_HashAlgorithm = HashAlgorithm_SHA384\<rparr>))
          = Inr SigningAlgorithmSpecRsassaPssSha384
      \<and> signingAlgorithmForKMS keyType (SignDataRequest_PssOptions
            (Some \<lparr>pss_SaltLength = salt, pss_HashAlgorithm = HashAlgorithm_SHA512\<rparr>))
          = Inr SigningAlgorithmSpecRsassaPssSha512"
    by (simp add: selectSigningAlgorithm_def)
  show "distinct [SigningAlgorithmSpecEcdsaSha256, SigningAlgorithmSpecEcdsaSha384,
        SigningAlgorithmSpecRsassaPkcs1V15Sha256, SigningAlgorithmSpecRsassaPkcs1V15Sha384,
        SigningAlgorithmSpecRsassaPkcs1V15Sha512, SigningAlgorithmSpecRsassaPssSha256,
        SigningAlgorithmSpecRsassaPssSha384, SigningAlgorithmSpecRsassaPssSha512]"
    by (simp add: kms_constants)
  show "\<forall>keyType opts hashAlgo.
         (opts = SignDataRequest_HashAlgorithm hashAlgo
          \<or> opts = SignDataRequest_PssOptions
                     (Some \<lparr>pss_SaltLength = salt, pss_HashAlgorithm = hashAlgo\<rparr>))
         \<longrightarrow> (hashAlgo = HashAlgorithm_UNSPECIFIED_HASH_ALGORITHM
                \<longrightarrow> signingAlgorithmForKMS keyType opts = Inl HashAlgorithmRequired)
           \<and> (hashAlgo \<noteq> HashAlgorithm_UNSPECIFIED_HASH_ALGORITHM
                \<and> (keyType, hashAlgo) \<noteq> (KeyType_EC_P256, HashAlgorithm_SHA256)
                \<and> (keyType, hashAlgo) \<noteq> (KeyType_EC_P384, HashAlgorithm_SHA384)
                \<and> \<not> (keyType \<in> {KeyType_RSA_2048, KeyType_RSA_4096}
                       \<and> hashAlgo \<in> {HashAlgorithm_SHA256, HashAlgorithm_SHA384,
                                      HashAlgorithm_SHA512})
                \<longrightarrow> signingAlgorithmForKMS keyType opts
                      = Inl (UnsupportedCombination keyType hashAlgo))"
    by (auto simp: selectSigningAlgorithm_def)
qed

theorem signingAlgorithm_table_witness:
  "signingAlgorithmForKMS KeyType_EC_P256 (SignDataRequest_HashAlgorithm HashAlgorithm_SHA256)
     = Inr SigningAlgorithmSpecEcdsaSha256
   \<and> signingAlgorithmForKMS KeyType_EC_P256 (SignDataRequest_HashAlgorithm HashAlgorithm_SHA384)
     = Inl (UnsupportedCombination KeyType_EC_P256 HashAlgorithm_SHA384)
   \<and> signingAlgorithmForKMS KeyType_RSA_2048 (SignDataRequest_PssOptions
        (Some \<lparr>pss_SaltLength = 32, pss_HashAlgorithm = HashAlgorithm_SHA256\<rparr>))
     = Inr SigningAlgorithmSpecRsassaPssSha256
   \<and> signingAlgorithmForKMS KeyType_RSA_4096
        (SignDataRequest_HashAlgorithm HashAlgorithm_UNSPECIFIED_HASH_ALGORITHM)
     = Inl HashAlgorithmRequired"
  using signingAlgorithm_table [of 32]
  by auto

subsection \<open>Admission to the cache\<close>

text \<open>
  Claim C4. \<open>setEntry\<close> returns an error and leaves the plugin, hence the cache, as it
  was when the key id, the KMS key id or the alias is empty, the public key is absent,
  or the public key's id is empty, its type unspecified or its PKIX data empty; when
  every field is present it stores the entry under the key id and returns no error.
\<close>

theorem setEntry_validates:
  "(spireKeyID = [] \<or> KMSKeyID e = [] \<or> Alias e = [] \<or> PublicKey e = None
      \<or> (\<exists>pk. PublicKey e = Some pk
            \<and> (pk_Id pk = [] \<or> pk_Type pk = KeyType_UNSPECIFIED_KEY_TYPE \<or> pk_PkixData pk = []))
     \<longrightarrow> (\<exists>err. setEntry p spireKeyID e = (Inl err, p)))
   \<and> (spireKeyID \<noteq> [] \<and> KMSKeyID e \<noteq> [] \<and> Alias e \<noteq> []
      \<and> (\<exists>pk. PublicKey e = Some pk
            \<and> pk_Id pk \<noteq> [] \<and> pk_Type pk \<noteq> KeyType_UNSPECIFIED_KEY_TYPE \<and> pk_PkixData pk \<noteq> [])
     \<longrightarrow> setEntry p spireKeyID e = (Inr (), p\<lparr>entries := (entries p)(spireKeyID \<mapsto> e)\<rparr>))"
  by (auto simp: setEntry_def split: option.splits)

theorem setEntry_validates_witness:
  "(\<exists>err. setEntry (simPlugin True []) ''old'' (simEntry\<lparr>Alias := []\<rparr>)
            = (Inl err, simPlugin True []))
   \<and> (\<exists>err. setEntry (simPlugin True []) ''old''
              (simEntry\<lparr>PublicKey := Some \<lparr>pk_Id = ''old'', pk_Type = KeyType_EC_P256,
                                            pk_PkixData = []\<rparr>\<rparr>)
            = (Inl err, simPlugin True []))
   \<and> setEntry (simPlugin True []) ''old'' simEntry
       = (Inr (), (simPlugin True [])\<lparr>entries := (entries (simPlugin True []))(''old'' \<mapsto> simEntry)\<rparr>)"
  using setEntry_validates [of "''old''" "simEntry\<lparr>Alias := []\<rparr>" "simPlugin True []"]
    setEntry_validates [of "''old''" "simEntry\<lparr>PublicKey := Some \<lparr>pk_Id = ''old'', pk_Type = KeyType_EC_P256,
                                            pk_PkixData = []\<rparr>\<rparr>" "simPlugin True []"]
    setEntry_validates [of "''old''" simEntry "simPlugin True []"]
  by (simp add: simEntry_def)

subsection \<open>Signing with an unknown key\<close>

text \<open>
  Claim C7. \<open>SignData\<close> with a non-empty key id that is not in the cache and signer
  options that are not nil fails with "no such key" and returns the plugin as it was:
  the cache, the remote state and the log of client calls are unchanged, so no call
  was made.
\<close>

theorem SignData_unknown_key:
  assumes "KeyId \<noteq> []" and "entries p KeyId = None"
  shows "SignData p KeyId (Some opts) Data = (Inl (NoSuchKey KeyId), p)"
  using assms by (simp add: SignData_def entry_def)

theorem SignData_unknown_key_witness:
  "''k1'' \<noteq> [] \<and> entries (simPlugin True []) ''k1'' = None
   \<and> SignData (simPlugin True []) ''k1'' (Some (SignDataRequest_HashAlgorithm HashAlgorithm_SHA256)) [1, 2]
       = (Inl (NoSuchKey ''k1''), simPlugin True [])
   \<and> calls (snd (SignData (simPlugin True []) ''k1''
        (Some (SignDataRequest_HashAlgorithm HashAlgorithm_SHA256)) [1, 2])) = []"
proof -
  have a: "''k1'' \<noteq> []" by simp
  have b: "entries (simPlugin True []) ''k1'' = None" by (simp add: simPlugin_def newPlugin_def)
  show ?thesis
    using a b SignData_unknown_key [OF a b, of "SignDataRequest_HashAlgorithm HashAlgorithm_SHA256" "[1, 2]"]
    by (simp add: simPlugin_def newPlugin_def)
qed

subsection \<open>The alias codec\<close>

text \<open>Facts about \<open>Index\<close> and \<open>SplitAfter\<close>.\<close>

lemma Index_bound: "Index s sep = Some m \<Longrightarrow> m + length sep \<le> length s"
proof (induction s arbitrary: m)
  case Nil
  then show ?case by (simp split: if_splits)
next
  case (Cons c s)
  show ?case
  proof (cases "prefix sep (c # s)")
    case True
    with Cons.prems have "m = 0" by simp
    moreover from True have "length sep \<le> length (c # s)" by (rule prefix_length_le)
    ultimately show ?thesis by simp
  next
    case False
    with Cons.prems obtain k where "Index s sep = Some k" "m = Suc k" by auto
    with Cons.IH show ?thesis by fastforce
  qed
qed

lemma Index_None_iff: "Index s sep = None \<longleftrightarrow> \<not> sublist sep s"
  by (induction s) (auto simp: sublist_Cons_right)

lemma Index_append_Some: "Index xs sep = Some m \<Longrightarrow> Index (xs @ ys) sep = Some m"
proof (induction xs arbitrary: m)
  case Nil
  then show ?case by (cases ys) (simp_all split: if_splits)
next
  case (Cons c xs)
  show ?case
  proof (cases "prefix sep (c # xs)")
    case True
    then have "prefix sep ((c # xs) @ ys)" by (rule prefix_prefix)
    with True Cons.prems show ?thesis by simp
  next
    case False
    with Cons.prems obtain k where k: "Index xs sep = Some k" "m = Suc k" by auto
    from k(1) have "length sep \<le> length xs" using Index_bound by fastforce
    then have "length sep \<le> length (c # xs)" by simp
    with False have "\<not> prefix sep ((c # xs) @ ys)"
      by (metis prefix_length_prefix prefixI)
    with k Cons.IH show ?thesis by simp
  qed
qed

lemma Index_first_occurrence:
  "(\<And>ps' ss'. ps @ sep @ ss = ps' @ sep @ ss' \<Longrightarrow> length ps \<le> length ps')
   \<Longrightarrow> Index (ps @ sep @ ss) sep = Some (length ps)"
proof (induction ps)
  case Nil
  show ?case
  proof (cases "sep @ ss")
    case Nil
    then show ?thesis by simp
  next
    case (Cons a list)
    then have "prefix sep (a # list)" by (metis prefixI)
    with Cons show ?thesis by simp
  qed
next
  case (Cons c ps)
  have "\<not> prefix sep (c # ps @ sep @ ss)"
  proof
    assume "prefix sep (c # ps @ sep @ ss)"
    then obtain r where "c # ps @ sep @ ss = sep @ r" by (auto simp: prefix_def)
    then have "(c # ps) @ sep @ ss = [] @ sep @ r" by simp
    then have "length (c # ps) \<le> length ([]::string)" by (rule Cons.prems)
    then show False by simp
  qed
  moreover have "Index (ps @ sep @ ss) sep = Some (length ps)"
  proof (rule Cons.IH)
    fix ps' ss'
    assume "ps @ sep @ ss = ps' @ sep @ ss'"
    then have "(c # ps) @ sep @ ss = (c # ps') @ sep @ ss'" by simp
    then have "length (c # ps) \<le> length (c # ps')" by (rule Cons.prems)
    then show "length ps \<le> length ps'" by simp
  qed
  ultimately show ?case by simp
qed

lemma SplitAfter_two:
  assumes "sep \<noteq> []" and "Index s sep = Some m"
    and "Index (drop (m + length sep) s) sep = None"
  shows "SplitAfter s sep = [take (m + length sep) s, drop (m + length sep) s]"
proof -
  have "SplitAfter (drop (m + length sep) s) sep = [drop (m + length sep) s]"
    using assms(1,3) by (subst SplitAfter.simps) simp
  with assms(1,2) show ?thesis by (subst SplitAfter.simps) simp
qed

lemma spireKeyIDFromAlias_split:
  assumes "pfx \<noteq> []" and "Index (ps @ pfx) pfx = Some (length ps)"
    and "\<not> sublist pfx ss"
  shows "spireKeyIDFromAlias pfx (ps @ pfx @ ss) = Inr ss"
proof -
  have "Index ((ps @ pfx) @ ss) pfx = Some (length ps)"
    using assms(2) by (rule Index_append_Some)
  then have i: "Index (ps @ pfx @ ss) pfx = Some (length ps)" by simp
  have d: "drop (length ps + length pfx) (ps @ pfx @ ss) = ss" by simp
  have n: "Index ss pfx = None" using assms(3) by (simp add: Index_None_iff)
  have "SplitAfter (ps @ pfx @ ss) pfx = [ps @ pfx, ss]"
    using SplitAfter_two [OF assms(1) i] d n by simp
  then show ?thesis by (simp add: spireKeyIDFromAlias_def)
qed

text \<open>
  Claim C6, as stated, fails. The alias is split at every occurrence of the key prefix,
  also at those that begin inside \<open>alias/\<close>. With the key prefix \<open>a\<close> and the key id
  \<open>x\<close>, which does not contain \<open>a\<close>, the alias \<open>alias/ax\<close> splits into four tokens and
  decoding fails; with the key prefix \<open>s/s\<close> the alias \<open>alias/s/sx\<close> decodes to \<open>/sx\<close>.
\<close>

theorem alias_roundtrip_counterexample:
  "\<not> sublist ''a'' ''x''
   \<and> spireKeyIDFromAlias ''a'' (aliasFromSpireKeyID ''a'' ''x'') = Inl (AliasWithoutPrefix ''a'')
   \<and> \<not> sublist ''s/s'' ''x''
   \<and> spireKeyIDFromAlias ''s/s'' (aliasFromSpireKeyID ''s/s'' ''x'') = Inr ''/sx''"
  by code_simp

text \<open>
  Claim C6, amended. For every key prefix whose first occurrence in \<open>alias/\<close> followed
  by the prefix is the one at the end (offset 6), as is the case for the default prefix,
  and every key id that does not contain the prefix as a substring, the alias built
  from the key id is \<open>alias/\<close>, the prefix and the key id concatenated, and decoding it
  gives the key id back.
\<close>

theorem alias_roundtrip:
  assumes "\<not> sublist pfx spireKeyID"
    and "Index (aliasPrefix @ pfx) pfx = Some (length aliasPrefix)"
  shows "aliasFromSpireKeyID pfx spireKeyID = aliasPrefix @ pfx @ spireKeyID
    \<and> spireKeyIDFromAlias pfx (aliasFromSpireKeyID pfx spireKeyID) = Inr spireKeyID"
proof -
  from assms(1) have "pfx \<noteq> []" by auto
  then show ?thesis
    using assms spireKeyIDFromAlias_split [of pfx aliasPrefix spireKeyID]
    by (simp add: aliasFromSpireKeyID_def)
qed

theorem alias_roundtrip_witness:
  "\<not> sublist defaultKeyPrefix ''x509-CA-A''
   \<and> Index (aliasPrefix @ defaultKeyPrefix) defaultKeyPrefix = Some (length aliasPrefix)
   \<and> aliasFromSpireKeyID defaultKeyPrefix ''x509-CA-A''
       = aliasPrefix @ defaultKeyPrefix @ ''x509-CA-A''
   \<and> spireKeyIDFromAlias defaultKeyPrefix (aliasFromSpireKeyID defaultKeyPrefix ''x509-CA-A'')
       = Inr ''x509-CA-A''"
proof -
  have a: "\<not> sublist defaultKeyPrefix ''x509-CA-A''" by code_simp
  have b: "Index (aliasPrefix @ defaultKeyPrefix) defaultKeyPrefix = Some (length aliasPrefix)"
    by code_simp
  show ?thesis
    using a b alias_roundtrip [OF a b] by blast
qed

lemma Index_occurs: "Index s sep = Some m \<Longrightarrow> prefix sep (drop m s)"
proof (induction s arbitrary: m)
  case Nil
  then show ?case by (simp split: if_splits)
next
  case (Cons c s)
  then show ?case by (cases "prefix sep (c # s)") auto
qed

lemma Index_least: "Index s sep = Some m \<Longrightarrow> j < m \<Longrightarrow> \<not> prefix sep (drop j s)"
proof (induction s arbitrary: m j)
  case Nil
  then show ?case by (simp split: if_splits)
next
  case (Cons c s)
  show ?case
  proof (cases "prefix sep (c # s)")
    case True
    with Cons.prems show ?thesis by simp
  next
    case False
    with Cons.prems obtain k where k: "Index s sep = Some k" "m = Suc k" by auto
    show ?thesis
    proof (cases j)
      case 0
      with False show ?thesis by simp
    next
      case (Suc i)
      with k Cons.prems have "i < k" by simp
      with k(1) have "\<not> prefix sep (drop i s)" by (rule Cons.IH)
      with Suc show ?thesis by simp
    qed
  qed
qed

text \<open>A check, by computation, that a separator occurs at one place only.\<close>

lemma unique_occurrenceI:
  assumes "Index alias sep = Some m" and "\<not> sublist sep (drop (Suc m) alias)"
    and "alias = b @ sep @ a"
  shows "b = take m alias"
proof -
  have occ: "prefix sep (drop (length b) alias)" using assms(3) by simp
  have "\<not> length b < m" using Index_least [OF assms(1)] occ by blast
  moreover have "\<not> m < length b"
  proof
    assume "m < length b"
    then have "drop (Suc m) alias = drop (Suc m) b @ sep @ a" using assms(3) by simp
    then have "sublist sep (drop (Suc m) alias)" by simp
    with assms(2) show False by simp
  qed
  ultimately have "length b = m" by simp
  with assms(3) show ?thesis by simp
qed

subsection \<open>Calls of the client\<close>

lemma call_Returned:
  "kmsClient p = Some c \<Longrightarrow> op c (remote p) = (Inr out, r')
   \<Longrightarrow> call p k op = (Returned out, p\<lparr>remote := r', calls := calls p @ [k]\<rparr>)"
  by (simp add: call_def)

lemma call_Failed:
  "kmsClient p = Some c \<Longrightarrow> op c (remote p) = (Inl err, r')
   \<Longrightarrow> call p k op = (Failed err, p\<lparr>remote := r', calls := calls p @ [k]\<rparr>)"
  by (simp add: call_def)

lemma call_fields:
  assumes "call p k op = (rep, p')"
  shows "entries p' = entries p" and "keyPrefix p' = keyPrefix p"
    and "kmsClient p' = kmsClient p" and "spawned p' = spawned p"
    and "hooks_newClient p' = hooks_newClient p"
  using assms by (auto simp: call_def split: option.splits prod.splits sum.splits)

subsection \<open>Aliases of a foreign shape\<close>

lemma decode_unique_occurrence:
  assumes "pfx \<noteq> []" and "alias = before @ pfx @ after"
    and "\<forall>b a. alias = b @ pfx @ a \<longrightarrow> b = before"
  shows "spireKeyIDFromAlias pfx alias = Inr after"
proof -
  have first: "Index (before @ pfx @ after) pfx = Some (length before)"
  proof (rule Index_first_occurrence)
    fix ps' ss'
    assume "before @ pfx @ after = ps' @ pfx @ ss'"
    with assms(2,3) have "ps' = before" by simp
    then show "length before \<le> length ps'" by simp
  qed
  have "\<not> sublist pfx after"
  proof
    assume "sublist pfx after"
    then obtain u v where "after = u @ pfx @ v" by (auto simp: sublist_def)
    with assms(2) have "alias = (before @ pfx @ u) @ pfx @ v" by simp
    with assms(3) have "before @ pfx @ u = before" by blast
    with assms(1) show False by simp
  qed
  then have none: "Index after pfx = None" by (simp add: Index_None_iff)
  have d: "drop (length before + length pfx) (before @ pfx @ after) = after" by simp
  have "SplitAfter (before @ pfx @ after) pfx = [before @ pfx, after]"
    using SplitAfter_two [OF assms(1) first] d none by simp
  with assms(2) show ?thesis by (simp add: spireKeyIDFromAlias_def)
qed

lemma buildKeyEntry_loaded:
  assumes "kmsClient p = Some c"
    and "kms_DescribeKey c alias (remote p) = (Inr (Some md), r1)" and "km_Enabled md"
    and "spireKeyIDFromAlias (keyPrefix p) alias = Inr spireKeyID"
    and "keyTypeFromKeySpec (km_CustomerMasterKeySpec md) = Inr keyType"
    and "kms_GetPublicKey c (Some alias) r1 = (Inr pub, r2)"
  shows "buildKeyEntry p alias target =
    (Inr (Some \<lparr>KMSKeyID = target, Alias = alias,
                PublicKey = Some \<lparr>pk_Id = spireKeyID, pk_Type = keyType,
                                  pk_PkixData = gpo_PublicKey pub\<rparr>\<rparr>),
     p\<lparr>remote := r2, calls := calls p @ [Call_DescribeKey alias, Call_GetPublicKey (Some alias)]\<rparr>)"
  using assms by (simp add: buildKeyEntry_def call_def)

lemma keyTypeFromKeySpec_specified:
  "keyTypeFromKeySpec keySpec = Inr keyType \<Longrightarrow> keyType \<noteq> KeyType_UNSPECIFIED_KEY_TYPE"
  by (auto simp: keyTypeFromKeySpec_def split: if_splits)

text \<open>
  \<open>validateConfig\<close> replaces an empty key prefix by the default one, so the configured
  key prefix is never empty.
\<close>

lemma validateConfig_KeyPrefix:
  "validateConfig decode c = Inr config \<Longrightarrow> KeyPrefix config \<noteq> []"
  by (auto simp: validateConfig_def defaultKeyPrefix_def split: sum.splits if_splits)

text \<open>
  Claim C10. When the alias contains the (non-empty) key prefix exactly once, that is,
  it is \<open>before\<close>, the prefix and \<open>after\<close> concatenated and every other such
  decomposition has the same \<open>before\<close>, decoding gives \<open>after\<close>, whatever \<open>before\<close> is.
  In reconciliation such an alias, when its key is enabled, of a supported spec and its
  public key can be fetched, is loaded into the cache under the key id \<open>after\<close>
  (provided the key id, the target key id and the public key bytes are not empty, which
  admission requires).
\<close>

theorem foreign_alias_decodes:
  assumes "pfx \<noteq> []" and "alias = before @ pfx @ after"
    and "\<forall>b a. alias = b @ pfx @ a \<longrightarrow> b = before"
  shows "spireKeyIDFromAlias pfx alias = Inr after
    \<and> (\<forall>p c md r1 pub r2 keyType target.
         keyPrefix p = pfx \<and> kmsClient p = Some c
         \<and> kms_DescribeKey c alias (remote p) = (Inr (Some md), r1) \<and> km_Enabled md
         \<and> keyTypeFromKeySpec (km_CustomerMasterKeySpec md) = Inr keyType
         \<and> kms_GetPublicKey c (Some alias) r1 = (Inr pub, r2)
         \<and> after \<noteq> [] \<and> target \<noteq> [] \<and> gpo_PublicKey pub \<noteq> []
         \<longrightarrow> (\<exists>p'. loadAliases p [\<lparr>AliasName = Some alias, TargetKeyId = Some target\<rparr>]
                     = (Inr (), p')
                \<and> entries p' = (entries p)(after \<mapsto>
                     \<lparr>KMSKeyID = target, Alias = alias,
                      PublicKey = Some \<lparr>pk_Id = after, pk_Type = keyType,
                                        pk_PkixData = gpo_PublicKey pub\<rparr>\<rparr>)))"
proof (intro conjI allI impI)
  show dec: "spireKeyIDFromAlias pfx alias = Inr after"
    using assms by (rule decode_unique_occurrence)
  fix p :: "'r Plugin" and c md r1 pub r2 keyType and target :: string
  assume h: "keyPrefix p = pfx \<and> kmsClient p = Some c
         \<and> kms_DescribeKey c alias (remote p) = (Inr (Some md), r1) \<and> km_Enabled md
         \<and> keyTypeFromKeySpec (km_CustomerMasterKeySpec md) = Inr keyType
         \<and> kms_GetPublicKey c (Some alias) r1 = (Inr pub, r2)
         \<and> after \<noteq> [] \<and> target \<noteq> [] \<and> gpo_PublicKey pub \<noteq> []"
  let ?e = "\<lparr>KMSKeyID = target, Alias = alias,
             PublicKey = Some \<lparr>pk_Id = after, pk_Type = keyType,
                               pk_PkixData = gpo_PublicKey pub\<rparr>\<rparr>"
  let ?p1 = "p\<lparr>remote := r2,
               calls := calls p @ [Call_DescribeKey alias, Call_GetPublicKey (Some alias)]\<rparr>"
  from h dec have "spireKeyIDFromAlias (keyPrefix p) alias = Inr after" by simp
  with h have b: "buildKeyEntry p alias target = (Inr (Some ?e), ?p1)"
    by (simp add: buildKeyEntry_loaded)
  from assms(1,2) have "alias \<noteq> []" by simp
  moreover from h have "keyType \<noteq> KeyType_UNSPECIFIED_KEY_TYPE"
    using keyTypeFromKeySpec_specified by blast
  ultimately have s: "setEntry ?p1 after ?e = (Inr (), ?p1\<lparr>entries := (entries ?p1)(after \<mapsto> ?e)\<rparr>)"
    using h by (simp add: setEntry_def)
  have "loadAliases p [\<lparr>AliasName = Some alias, TargetKeyId = Some target\<rparr>]
          = (Inr (), ?p1\<lparr>entries := (entries ?p1)(after \<mapsto> ?e)\<rparr>)"
    by (simp add: b s)
  then show "\<exists>p'. loadAliases p [\<lparr>AliasName = Some alias, TargetKeyId = Some target\<rparr>]
                     = (Inr (), p')
                \<and> entries p' = (entries p)(after \<mapsto> ?e)"
    by simp
qed

theorem foreign_alias_decodes_witness:
  "spireKeyIDFromAlias defaultKeyPrefix ''other/SPIRE_SERVER_KEY/x'' = Inr ''x''
   \<and> (\<exists>p'. loadAliases (simPlugin True [])
              [\<lparr>AliasName = Some ''other/SPIRE_SERVER_KEY/x'', TargetKeyId = Some ''k4''\<rparr>]
            = (Inr (), p')
          \<and> entries p' = (entries (simPlugin True []))(''x'' \<mapsto>
               \<lparr>KMSKeyID = ''k4'', Alias = ''other/SPIRE_SERVER_KEY/x'',
                PublicKey = Some \<lparr>pk_Id = ''x'', pk_Type = KeyType_EC_P256,
                                  pk_PkixData = [48, 89]\<rparr>\<rparr>))"
proof -
  have a: "defaultKeyPrefix \<noteq> []" by (simp add: defaultKeyPrefix_def)
  have b: "''other/SPIRE_SERVER_KEY/x'' = ''other/'' @ defaultKeyPrefix @ ''x''"
    by (simp add: defaultKeyPrefix_def)
  have i: "Index ''other/SPIRE_SERVER_KEY/x'' defaultKeyPrefix = Some 6" by code_simp
  have n: "\<not> sublist defaultKeyPrefix (drop (Suc 6) ''other/SPIRE_SERVER_KEY/x'')" by code_simp
  have c: "\<forall>b a. ''other/SPIRE_SERVER_KEY/x'' = b @ defaultKeyPrefix @ a \<longrightarrow> b = ''other/''"
  proof (intro allI impI)
    fix b a
    assume "''other/SPIRE_SERVER_KEY/x'' = b @ defaultKeyPrefix @ a"
    with i n have "b = take 6 ''other/SPIRE_SERVER_KEY/x''" by (rule unique_occurrenceI)
    then show "b = ''other/''" by simp
  qed
  have k: "keyTypeFromKeySpec ''ECC_NIST_P256'' = Inr KeyType_EC_P256"
    by (simp add: keyTypeFromKeySpec_def kms_constants)
  note t = foreign_alias_decodes [OF a b c, THEN conjunct2, rule_format,
    where p = "simPlugin True []" and c = "simClient True []" and ?r1.0 = 0 and ?r2.0 = 0
      and pub = "\<lparr>gpo_KeyId = Some ''other/SPIRE_SERVER_KEY/x'', gpo_PublicKey = [48, 89]\<rparr>"
      and keyType = KeyType_EC_P256 and target = "''k4''"]
  show ?thesis
    using foreign_alias_decodes [OF a b c, THEN conjunct1] t k
    by (simp add: simPlugin_def simClient_def newPlugin_def)
qed

subsection \<open>Key generation and rotation\<close>

lemma createKey_fields:
  assumes "createKey p spireKeyID keyType = (res, p1)"
  shows "entries p1 = entries p" and "keyPrefix p1 = keyPrefix p"
    and "kmsClient p1 = kmsClient p" and "spawned p1 = spawned p"
  using assms
  by (auto simp: createKey_def call_def Let_def
           split: sum.splits option.splits prod.splits reply.splits)

lemma createKey_Inr:
  assumes "createKey p spireKeyID keyType = (Inr newEntry, p1)"
  shows "Alias newEntry = aliasFromSpireKeyID (keyPrefix p) spireKeyID"
    and "keySpecFromKeyType keyType \<noteq> Inl UnknownKeyType"
  using assms
  by (auto simp: createKey_def Let_def
           split: sum.splits option.splits prod.splits reply.splits)







text \<open>The definitions that a run of the model on the simulated service unfolds.\<close>

lemmas run_defs =
  GenerateKey_def createKey_def call_def admitGenerated_def setEntry_def entry_def
  descriptionFromSpireKeyID_def aliasFromSpireKeyID_def clonePublicKey_def
  KeyUsageTypeSignVerify_def aliasPrefix_def defaultKeyPrefix_def kms_constants
  simPlugin_def newPlugin_def simClient_def simKeyId_def simEntry_def Let_def
  simSameIdPlugin_def simSameIdClient_def




text \<open>
  Claim C3. When \<open>createKey\<close> has succeeded and the call that follows fails, that is
  \<open>CreateAlias\<close> when the cache has no entry for the key id and \<open>UpdateAlias\<close> when it has
  one, \<open>GenerateKey\<close> returns the corresponding error and the cache is what it was
  before the call; no deletion is spawned either.
\<close>

theorem GenerateKey_alias_failure:
  assumes "KeyId \<noteq> []" and "createKey p KeyId KeyType = (Inr newEntry, p1)"
    and "kmsClient p1 = Some c"
    and "entries p KeyId = None \<longrightarrow>
           fst (kms_CreateAlias c (Alias newEntry) (KMSKeyID newEntry) (remote p1)) = Inl err"
    and "entries p KeyId \<noteq> None \<longrightarrow>
           fst (kms_UpdateAlias c (Alias newEntry) (KMSKeyID newEntry) (remote p1)) = Inl err"
  shows "\<exists>p2. GenerateKey p KeyId KeyType =
            (Inl (if entries p KeyId = None then FailedToCreateAlias err
                  else FailedToUpdateAlias err), p2)
          \<and> entries p2 = entries p \<and> spawned p2 = spawned p"
proof -
  from assms(2) have "keySpecFromKeyType KeyType \<noteq> Inl UnknownKeyType" by (rule createKey_Inr)
  then have t: "KeyType \<noteq> KeyType_UNSPECIFIED_KEY_TYPE" by auto
  note f = createKey_fields [OF assms(2)]
  show ?thesis
  proof (cases "entries p KeyId")
    case None
    with assms(4) obtain r' where
      "kms_CreateAlias c (Alias newEntry) (KMSKeyID newEntry) (remote p1) = (Inl err, r')"
      by (cases "kms_CreateAlias c (Alias newEntry) (KMSKeyID newEntry) (remote p1)") simp
    with assms(3) have "call p1 (Call_CreateAlias (Alias newEntry) (KMSKeyID newEntry))
          (\<lambda>c. kms_CreateAlias c (Alias newEntry) (KMSKeyID newEntry))
        = (Failed err, p1\<lparr>remote := r', calls := calls p1 @ [Call_CreateAlias (Alias newEntry) (KMSKeyID newEntry)]\<rparr>)"
      by (rule call_Failed)
    with assms(1,2) t f None show ?thesis by (simp add: GenerateKey_def entry_def)
  next
    case (Some oldEntry)
    with assms(5) obtain r' where
      "kms_UpdateAlias c (Alias newEntry) (KMSKeyID newEntry) (remote p1) = (Inl err, r')"
      by (cases "kms_UpdateAlias c (Alias newEntry) (KMSKeyID newEntry) (remote p1)") simp
    with assms(3) have "call p1 (Call_UpdateAlias (Alias newEntry) (KMSKeyID newEntry))
          (\<lambda>c. kms_UpdateAlias c (Alias newEntry) (KMSKeyID newEntry))
        = (Failed err, p1\<lparr>remote := r', calls := calls p1 @ [Call_UpdateAlias (Alias newEntry) (KMSKeyID newEntry)]\<rparr>)"
      by (rule call_Failed)
    with assms(1,2) t f Some show ?thesis by (simp add: GenerateKey_def entry_def)
  qed
qed

theorem GenerateKey_alias_failure_witness:
  "fst (createKey (simPlugin False []) ''k1'' KeyType_EC_P256)
     = Inr \<lparr>KMSKeyID = ''k'', Alias = ''alias/SPIRE_SERVER_KEY/k1'',
            PublicKey = Some \<lparr>pk_Id = ''k1'', pk_Type = KeyType_EC_P256, pk_PkixData = [48, 89]\<rparr>\<rparr>
   \<and> fst (GenerateKey (simPlugin False []) ''k1'' KeyType_EC_P256)
       = Inl (FailedToCreateAlias ''access denied'')
   \<and> entries (snd (GenerateKey (simPlugin False []) ''k1'' KeyType_EC_P256))
       = entries (simPlugin False [])
   \<and> fst (GenerateKey ((simPlugin False [])\<lparr>entries := [''old'' \<mapsto> simEntry]\<rparr>) ''old'' KeyType_EC_P256)
       = Inl (FailedToUpdateAlias ''access denied'')
   \<and> entries (snd (GenerateKey ((simPlugin False [])\<lparr>entries := [''old'' \<mapsto> simEntry]\<rparr>)
                     ''old'' KeyType_EC_P256))
       = [''old'' \<mapsto> simEntry]"
proof -
  let ?pk = "\<lambda>k. Some \<lparr>pk_Id = k, pk_Type = KeyType_EC_P256, pk_PkixData = [48, 89]\<rparr>"
  let ?p = "simPlugin False []"
  let ?q = "(simPlugin False [])\<lparr>entries := [''old'' \<mapsto> simEntry]\<rparr>"
  let ?e = "\<lparr>KMSKeyID = ''k'', Alias = ''alias/SPIRE_SERVER_KEY/k1'', PublicKey = ?pk ''k1''\<rparr>"
  let ?f = "\<lparr>KMSKeyID = ''k'', Alias = ''alias/SPIRE_SERVER_KEY/old'', PublicKey = ?pk ''old''\<rparr>"
  have k: "''k1'' \<noteq> []" "''old'' \<noteq> []" by simp_all
  have c1: "createKey ?p ''k1'' KeyType_EC_P256 = (Inr ?e, snd (createKey ?p ''k1'' KeyType_EC_P256))"
    by (simp add: run_defs prod_eq_iff)
  have c2: "createKey ?q ''old'' KeyType_EC_P256 = (Inr ?f, snd (createKey ?q ''old'' KeyType_EC_P256))"
    by (simp add: run_defs prod_eq_iff)
  have m1: "kmsClient (snd (createKey ?p ''k1'' KeyType_EC_P256)) = Some (simClient False [])"
    by (simp add: run_defs)
  have m2: "kmsClient (snd (createKey ?q ''old'' KeyType_EC_P256)) = Some (simClient False [])"
    by (simp add: run_defs)
  have a1: "entries ?p ''k1'' = None \<longrightarrow>
      fst (kms_CreateAlias (simClient False []) (Alias ?e) (KMSKeyID ?e)
             (remote (snd (createKey ?p ''k1'' KeyType_EC_P256)))) = Inl ''access denied''"
    by (simp add: simClient_def)
  have a2: "entries ?p ''k1'' \<noteq> None \<longrightarrow>
      fst (kms_UpdateAlias (simClient False []) (Alias ?e) (KMSKeyID ?e)
             (remote (snd (createKey ?p ''k1'' KeyType_EC_P256)))) = Inl ''access denied''"
    by (simp add: simClient_def)
  have b1: "entries ?q ''old'' = None \<longrightarrow>
      fst (kms_CreateAlias (simClient False []) (Alias ?f) (KMSKeyID ?f)
             (remote (snd (createKey ?q ''old'' KeyType_EC_P256)))) = Inl ''access denied''"
    by (simp add: simClient_def)
  have b2: "entries ?q ''old'' \<noteq> None \<longrightarrow>
      fst (kms_UpdateAlias (simClient False []) (Alias ?f) (KMSKeyID ?f)
             (remote (snd (createKey ?q ''old'' KeyType_EC_P256)))) = Inl ''access denied''"
    by (simp add: simClient_def)
  have n: "entries ?p ''k1'' = None" "entries ?q ''old'' = Some simEntry" "entries ?q = [''old'' \<mapsto> simEntry]"
    by (simp_all add: simPlugin_def newPlugin_def)
  from GenerateKey_alias_failure [OF k(1) c1 m1 a1 a2] n(1)
  have r1: "fst (GenerateKey ?p ''k1'' KeyType_EC_P256) = Inl (FailedToCreateAlias ''access denied'')
      \<and> entries (snd (GenerateKey ?p ''k1'' KeyType_EC_P256)) = entries ?p"
    by auto
  from GenerateKey_alias_failure [OF k(2) c2 m2 b1 b2] n(2,3)
  have r2: "fst (GenerateKey ?q ''old'' KeyType_EC_P256) = Inl (FailedToUpdateAlias ''access denied'')
      \<and> entries (snd (GenerateKey ?q ''old'' KeyType_EC_P256)) = [''old'' \<mapsto> simEntry]"
    by auto
  from c1 have "fst (createKey ?p ''k1'' KeyType_EC_P256) = Inr ?e" by (metis fst_conv)
  with r1 r2 show ?thesis by simp
qed

subsection \<open>The cache across Configure\<close>

text \<open>
  Reconciliation never reads the cache: run on a plugin with more entries underneath,
  every step does the same and leaves those entries underneath.
\<close>

lemma call_carryOver:
  "call (carryOver m p) k op = apsnd (carryOver m) (call p k op)"
  by (simp add: call_def carryOver_def split: option.splits prod.splits sum.splits)

lemma setEntry_carryOver:
  "setEntry (carryOver m p) k e = apsnd (carryOver m) (setEntry p k e)"
  by (simp add: setEntry_def carryOver_def split: option.splits)

lemma carryOver_keyPrefix: "keyPrefix (carryOver m p) = keyPrefix p"
  by (simp add: carryOver_def)

lemma buildKeyEntry_carryOver:
  "buildKeyEntry (carryOver m p) alias target = apsnd (carryOver m) (buildKeyEntry p alias target)"
  by (simp add: buildKeyEntry_def call_carryOver carryOver_keyPrefix
           split: prod.splits reply.splits option.splits sum.splits)

lemma loadAliases_carryOver:
  "loadAliases (carryOver m p) as = apsnd (carryOver m) (loadAliases p as)"
proof (induction as arbitrary: p)
  case Nil
  show ?case by simp
next
  case (Cons a as)
  show ?case
    by (simp add: buildKeyEntry_carryOver setEntry_carryOver Cons.IH
             split: prod.splits option.splits sum.splits)
qed

lemma fetchAliasesPage_carryOver:
  "fetchAliasesPage (carryOver m p) marker = apsnd (carryOver m) (fetchAliasesPage p marker)"
  by (simp add: fetchAliasesPage_def call_carryOver loadAliases_carryOver
           split: prod.splits reply.splits sum.splits)

lemma fetchAllPages_carryOver:
  "fetchAllPages fuel (carryOver m p) marker
     = map_option (apsnd (carryOver m)) (fetchAllPages fuel p marker)"
proof (induction fuel arbitrary: p marker)
  case 0
  show ?case by simp
next
  case (Suc fuel)
  show ?case
    by (simp add: fetchAliasesPage_carryOver Suc.IH split: prod.splits sum.splits option.splits)
qed

lemma Configure_carryOver:
  "Configure fuel decode (carryOver m p) configuration
     = map_option (apsnd (carryOver m)) (Configure fuel decode p configuration)"
proof -
  have u: "(carryOver m p)\<lparr>keyPrefix := x, kmsClient := y\<rparr>
             = carryOver m (p\<lparr>keyPrefix := x, kmsClient := y\<rparr>)" for x y
    by (simp add: carryOver_def)
  have h: "hooks_newClient ((carryOver m p)\<lparr>keyPrefix := x\<rparr>) = hooks_newClient (p\<lparr>keyPrefix := x\<rparr>)" for x
    by (simp add: carryOver_def)
  show ?thesis
    by (simp add: Configure_def Let_def u h fetchAllPages_carryOver split: sum.splits)
qed

text \<open>The further definitions that a run of \<open>Configure\<close> on the simulated service unfolds.\<close>

lemmas reconcile_defs =
  Configure_def validateConfig_def simDecode_def fetchAliasesPage_def buildKeyEntry_def
  keyTypeFromKeySpec_def simFresh_def

text \<open>
  Claim C9, as stated, fails: the cache is made by \<open>newPlugin\<close>, and \<open>Configure\<close> does not
  empty it. A new plugin is configured against a service that lists no alias, a key
  \<open>old\<close> is generated, and the plugin is configured again: the second \<open>Configure\<close>
  succeeds and the cache still has the entry for \<open>old\<close>, which this reconciliation did
  not admit (run on an empty cache it leaves no entry for \<open>old\<close>).
\<close>

theorem Configure_carries_entries_over:
  "fst (the (Configure 1 simDecode (simFresh []) [])) = Inr ()
   \<and> fst (GenerateKey (snd (the (Configure 1 simDecode (simFresh []) []))) ''old'' KeyType_EC_P256)
       = Inr (Some \<lparr>pk_Id = ''old'', pk_Type = KeyType_EC_P256, pk_PkixData = [48, 89]\<rparr>)
   \<and> Configure 1 simDecode
        (snd (GenerateKey (snd (the (Configure 1 simDecode (simFresh []) []))) ''old'' KeyType_EC_P256))
        [] \<noteq> None
   \<and> fst (the (Configure 1 simDecode
        (snd (GenerateKey (snd (the (Configure 1 simDecode (simFresh []) []))) ''old'' KeyType_EC_P256))
        [])) = Inr ()
   \<and> entries (snd (the (Configure 1 simDecode
        (snd (GenerateKey (snd (the (Configure 1 simDecode (simFresh []) []))) ''old'' KeyType_EC_P256))
        []))) ''old'' \<noteq> None
   \<and> entries (snd (the (Configure 1 simDecode
        ((snd (GenerateKey (snd (the (Configure 1 simDecode (simFresh []) []))) ''old'' KeyType_EC_P256))
           \<lparr>entries := Map.empty\<rparr>)
        []))) ''old'' = None"
  by (simp add: reconcile_defs run_defs)

text \<open>
  Claim C9, amended. The cache is empty when the plugin is built. After a \<open>Configure\<close>
  that succeeds, the cache consists of the entries that this call's reconciliation
  admitted, which are those it leaves when run on an empty cache, and, for every key
  id that it did not admit, of the entry the cache had before the call.
\<close>

theorem Configure_keeps_entries:
  "entries (newPlugin newClient r) = Map.empty
   \<and> (Configure fuel decode p configuration = Some (Inr (), p')
      \<longrightarrow> (\<exists>a. Configure fuel decode (p\<lparr>entries := Map.empty\<rparr>) configuration = Some (Inr (), a)
                \<and> entries p' = entries p ++ entries a))"
proof (intro conjI impI)
  show "entries (newPlugin newClient r) = Map.empty" by (simp add: newPlugin_def)
  assume c: "Configure fuel decode p configuration = Some (Inr (), p')"
  have "p = carryOver (entries p) (p\<lparr>entries := Map.empty\<rparr>)" by (simp add: carryOver_def)
  then have "Configure fuel decode p configuration
      = map_option (apsnd (carryOver (entries p)))
          (Configure fuel decode (p\<lparr>entries := Map.empty\<rparr>) configuration)"
    using Configure_carryOver by metis
  with c obtain a where "Configure fuel decode (p\<lparr>entries := Map.empty\<rparr>) configuration = Some (Inr (), a)"
    and "p' = carryOver (entries p) a"
    by (cases "Configure fuel decode (p\<lparr>entries := Map.empty\<rparr>) configuration") auto
  then show "\<exists>a. Configure fuel decode (p\<lparr>entries := Map.empty\<rparr>) configuration = Some (Inr (), a)
                \<and> entries p' = entries p ++ entries a"
    by (simp add: carryOver_def)
qed


theorem Configure_keeps_entries_witness:
  "Configure 1 simDecode
      ((simPlugin True [\<lparr>AliasName = Some ''alias/SPIRE_SERVER_KEY/x'', TargetKeyId = Some ''k9''\<rparr>])
         \<lparr>entries := [''old'' \<mapsto> simEntry]\<rparr>) [] \<noteq> None
   \<and> fst (the (Configure 1 simDecode
      ((simPlugin True [\<lparr>AliasName = Some ''alias/SPIRE_SERVER_KEY/x'', TargetKeyId = Some ''k9''\<rparr>])
         \<lparr>entries := [''old'' \<mapsto> simEntry]\<rparr>) [])) = Inr ()
   \<and> (\<exists>a. Configure 1 simDecode
             ((simPlugin True [\<lparr>AliasName = Some ''alias/SPIRE_SERVER_KEY/x'', TargetKeyId = Some ''k9''\<rparr>])
                \<lparr>entries := Map.empty\<rparr>) [] = Some (Inr (), a)
          \<and> entries a ''old'' = None \<and> entries a ''x'' \<noteq> None
          \<and> entries (snd (the (Configure 1 simDecode
               ((simPlugin True [\<lparr>AliasName = Some ''alias/SPIRE_SERVER_KEY/x'', TargetKeyId = Some ''k9''\<rparr>])
                  \<lparr>entries := [''old'' \<mapsto> simEntry]\<rparr>) [])))
             = [''old'' \<mapsto> simEntry] ++ entries a)"
proof -
  let ?L = "[\<lparr>AliasName = Some ''alias/SPIRE_SERVER_KEY/x'', TargetKeyId = Some ''k9''\<rparr>]"
  let ?P = "(simPlugin True ?L)\<lparr>entries := [''old'' \<mapsto> simEntry]\<rparr>"
  have d: "spireKeyIDFromAlias ''SPIRE_SERVER_KEY/'' ''alias/SPIRE_SERVER_KEY/x'' = Inr ''x''"
    by code_simp
  have n: "Configure 1 simDecode ?P [] \<noteq> None" by (simp add: reconcile_defs run_defs d)
  have f: "fst (the (Configure 1 simDecode ?P [])) = Inr ()" by (simp add: reconcile_defs run_defs d)
  from n f have h: "Configure 1 simDecode ?P [] = Some (Inr (), snd (the (Configure 1 simDecode ?P [])))"
    by (auto simp: prod_eq_iff)
  have e: "entries ?P = [''old'' \<mapsto> simEntry]" by simp
  from Configure_keeps_entries [of _ _ 1 simDecode ?P "[]", THEN conjunct2, rule_format, OF h]
  obtain a where a: "Configure 1 simDecode (?P\<lparr>entries := Map.empty\<rparr>) [] = Some (Inr (), a)"
    "entries (snd (the (Configure 1 simDecode ?P []))) = entries ?P ++ entries a"
    by blast
  have s: "?P\<lparr>entries := Map.empty\<rparr> = (simPlugin True ?L)\<lparr>entries := Map.empty\<rparr>" by simp
  have "entries (snd (the (Configure 1 simDecode (?P\<lparr>entries := Map.empty\<rparr>) []))) ''old'' = None"
    "entries (snd (the (Configure 1 simDecode (?P\<lparr>entries := Map.empty\<rparr>) []))) ''x'' \<noteq> None"
    by (simp_all add: reconcile_defs run_defs d)
  with a(1) have "entries a ''old'' = None" "entries a ''x'' \<noteq> None" by simp_all
  with a n f e s show ?thesis by auto
qed

subsection \<open>Reconciliation: what is skipped and what aborts\<close>

lemma loadAliases_append:
  "loadAliases p (xs @ ys) =
    (case loadAliases p xs of (Inl err, p1) \<Rightarrow> (Inl err, p1) | (Inr u, p1) \<Rightarrow> loadAliases p1 ys)"
proof (induction xs arbitrary: p)
  case Nil
  show ?case by simp
next
  case (Cons a xs)
  show ?case
    by (simp add: Cons.IH split: prod.splits option.splits sum.splits)
qed

lemma fetchAllPages_afterPages:
  "afterPages k p marker = Some (q, m) \<Longrightarrow> fetchAllPages (k + n) p marker = fetchAllPages n q m"
proof (induction k arbitrary: p marker)
  case 0
  then show ?case by simp
next
  case (Suc k)
  then show ?case
    by (auto split: prod.splits sum.splits option.splits)
qed

lemma Configure_fetchAllPages:
  "validateConfig decode configuration = Inr config \<Longrightarrow> hooks_newClient p0 config = Inr client
   \<Longrightarrow> Configure fuel decode p0 configuration
       = fetchAllPages fuel (p0\<lparr>keyPrefix := KeyPrefix config, kmsClient := Some client\<rparr>) None"
  by (simp add: Configure_def)

lemma buildKeyEntry_describe_fails:
  "call p (Call_DescribeKey name) (\<lambda>c. kms_DescribeKey c name) = (Failed err, p1)
   \<Longrightarrow> buildKeyEntry p name target = (Inl (FailedToDescribeKey err), p1)"
  by (simp add: buildKeyEntry_def)

lemma buildKeyEntry_skips:
  "call p (Call_DescribeKey name) (\<lambda>c. kms_DescribeKey c name) = (Returned (Some md), p1)
   \<Longrightarrow> \<not> km_Enabled md \<or> (\<exists>e. spireKeyIDFromAlias (keyPrefix p) name = Inl e)
        \<or> (\<exists>e. keyTypeFromKeySpec (km_CustomerMasterKeySpec md) = Inl e)
   \<Longrightarrow> buildKeyEntry p name target = (Inr None, p1)"
  by (auto simp: buildKeyEntry_def split: sum.splits)

lemma buildKeyEntry_getPublicKey_fails:
  "call p (Call_DescribeKey name) (\<lambda>c. kms_DescribeKey c name) = (Returned (Some md), p1)
   \<Longrightarrow> km_Enabled md \<Longrightarrow> spireKeyIDFromAlias (keyPrefix p) name = Inr spireKeyID
   \<Longrightarrow> keyTypeFromKeySpec (km_CustomerMasterKeySpec md) = Inr keyType
   \<Longrightarrow> call p1 (Call_GetPublicKey (Some name)) (\<lambda>c. kms_GetPublicKey c (Some name)) = (Failed err, p2)
   \<Longrightarrow> buildKeyEntry p name target = (Inl (FailedToGetPublicKey err), p2)"
  by (simp add: buildKeyEntry_def)

lemma buildKeyEntry_keyPrefix:
  "buildKeyEntry p name target = (res, p1) \<Longrightarrow> keyPrefix p1 = keyPrefix p"
  by (auto simp: buildKeyEntry_def call_def
           split: prod.splits reply.splits option.splits sum.splits if_splits)

lemma setEntry_keyPrefix: "setEntry p k e = (res, p1) \<Longrightarrow> keyPrefix p1 = keyPrefix p"
  by (auto simp: setEntry_def split: option.splits if_splits)

lemma loadAliases_keyPrefix:
  "loadAliases p as = (res, p1) \<Longrightarrow> keyPrefix p1 = keyPrefix p"
proof (induction as arbitrary: p)
  case Nil
  then show ?case by simp
next
  case (Cons a as)
  then show ?case
    by (auto split: prod.splits option.splits sum.splits if_splits
             dest!: buildKeyEntry_keyPrefix setEntry_keyPrefix)
qed

lemma fetchAliasesPage_keyPrefix:
  "fetchAliasesPage p marker = (res, p1) \<Longrightarrow> keyPrefix p1 = keyPrefix p"
  by (auto simp: fetchAliasesPage_def split: prod.splits reply.splits sum.splits
           dest!: loadAliases_keyPrefix call_fields(2))

lemma page_aborts:
  assumes "afterPages k p None = Some (q, marker)"
    and "call q (Call_ListAliases marker) (\<lambda>c. kms_ListAliases c marker) = (Returned resp, q1)"
    and "Aliases resp = before @ \<lparr>AliasName = Some name, TargetKeyId = Some target\<rparr> # rest"
    and "loadAliases q1 before = (Inr (), q2)"
    and "buildKeyEntry q2 name target = (Inl err, q3)" and "err \<noteq> NilDereference"
  shows "fetchAllPages (k + Suc n) p None = Some (Inl (FailedToProcessKMSKey err), q3)"
proof -
  have "loadAliases q1 (Aliases resp) = (Inl (FailedToProcessKMSKey err), q3)"
    using assms(3-6) by (simp add: loadAliases_append)
  with assms(2) have "fetchAliasesPage q marker = (Inl (FailedToProcessKMSKey err), q3)"
    by (simp add: fetchAliasesPage_def)
  then have "fetchAllPages (Suc n) q marker = Some (Inl (FailedToProcessKMSKey err), q3)" by simp
  moreover have "fetchAllPages (k + Suc n) p None = fetchAllPages (Suc n) q marker"
    using assms(1) by (rule fetchAllPages_afterPages)
  ultimately show ?thesis by (simp only:)
qed

text \<open>
  Claim C2. \<open>Configure\<close> has validated the configuration and made the client; the
  paging loop has loaded \<open>k\<close> pages and lists the next one, in which the aliases
  \<open>before\<close> have been processed without error and the pair of \<open>name\<close> and \<open>target\<close>
  comes next. Then:
  \<^item> if \<open>DescribeKey\<close> fails for it, \<open>Configure\<close> returns the error (for every bound on
    the number of pages that lets the loop reach this page);
  \<^item> if the key is disabled, or the alias does not decode under the configured prefix,
    or the key spec is not supported, the loop goes on with the rest of the page and
    the cache is as it was;
  \<^item> if the key is enabled, the alias decodes, the key spec is supported and
    \<open>GetPublicKey\<close> fails, \<open>Configure\<close> returns the error.
\<close>

theorem reconciliation_skips_and_aborts:
  assumes "validateConfig decode configuration = Inr config"
    and "hooks_newClient p0 config = Inr client"
    and "p = p0\<lparr>keyPrefix := KeyPrefix config, kmsClient := Some client\<rparr>"
    and "afterPages k p None = Some (q, marker)"
    and "call q (Call_ListAliases marker) (\<lambda>c. kms_ListAliases c marker) = (Returned resp, q1)"
    and "Aliases resp = before @ \<lparr>AliasName = Some name, TargetKeyId = Some target\<rparr> # rest"
    and "loadAliases q1 before = (Inr (), q2)"
  shows "(\<forall>err q3.
            call q2 (Call_DescribeKey name) (\<lambda>c. kms_DescribeKey c name) = (Failed err, q3)
            \<longrightarrow> (\<forall>n. Configure (k + Suc n) decode p0 configuration
                        = Some (Inl (FailedToProcessKMSKey (FailedToDescribeKey err)), q3)))
    \<and> (\<forall>md q3.
            call q2 (Call_DescribeKey name) (\<lambda>c. kms_DescribeKey c name) = (Returned (Some md), q3)
            \<and> (\<not> km_Enabled md
                \<or> (\<exists>e. spireKeyIDFromAlias (KeyPrefix config) name = Inl e)
                \<or> (\<exists>e. keyTypeFromKeySpec (km_CustomerMasterKeySpec md) = Inl e))
            \<longrightarrow> loadAliases q1 (Aliases resp) = loadAliases q3 rest \<and> entries q3 = entries q2)
    \<and> (\<forall>md q3 spireKeyID keyType err q4.
            call q2 (Call_DescribeKey name) (\<lambda>c. kms_DescribeKey c name) = (Returned (Some md), q3)
            \<and> km_Enabled md \<and> spireKeyIDFromAlias (KeyPrefix config) name = Inr spireKeyID
            \<and> keyTypeFromKeySpec (km_CustomerMasterKeySpec md) = Inr keyType
            \<and> call q3 (Call_GetPublicKey (Some name)) (\<lambda>c. kms_GetPublicKey c (Some name))
                = (Failed err, q4)
            \<longrightarrow> (\<forall>n. Configure (k + Suc n) decode p0 configuration
                        = Some (Inl (FailedToProcessKMSKey (FailedToGetPublicKey err)), q4)))"
proof (intro conjI allI impI)
  have kp: "keyPrefix q2 = KeyPrefix config"
  proof -
    have a: "keyPrefix b = keyPrefix a" if "afterPages j a m = Some (b, m')" for j and a b :: "'r Plugin" and m m'
      using that
    proof (induction j arbitrary: a m)
      case 0
      then show ?case by simp
    next
      case (Suc j)
      then show ?case
        by (auto simp: fetchAliasesPage_keyPrefix split: prod.splits sum.splits option.splits)
    qed
    have "keyPrefix q = keyPrefix p" using assms(4) by (rule a)
    moreover have "keyPrefix q1 = keyPrefix q" using assms(5) by (rule call_fields)
    moreover have "keyPrefix q2 = keyPrefix q1" using assms(7) by (rule loadAliases_keyPrefix)
    ultimately show ?thesis using assms(3) by simp
  qed
  have conf: "Configure fuel decode p0 configuration = fetchAllPages fuel p None" for fuel
    using assms(1-3) by (simp add: Configure_fetchAllPages)
  {
    fix err q3 n
    assume "call q2 (Call_DescribeKey name) (\<lambda>c. kms_DescribeKey c name) = (Failed err, q3)"
    then have "buildKeyEntry q2 name target = (Inl (FailedToDescribeKey err), q3)"
      by (rule buildKeyEntry_describe_fails)
    with assms(4-7)
    have "fetchAllPages (k + Suc n) p None
            = Some (Inl (FailedToProcessKMSKey (FailedToDescribeKey err)), q3)"
      by (rule page_aborts) simp
    then show "Configure (k + Suc n) decode p0 configuration
                 = Some (Inl (FailedToProcessKMSKey (FailedToDescribeKey err)), q3)"
      by (simp only: conf)
  }
  {
    fix md q3
    assume h: "call q2 (Call_DescribeKey name) (\<lambda>c. kms_DescribeKey c name) = (Returned (Some md), q3)
            \<and> (\<not> km_Enabled md
                \<or> (\<exists>e. spireKeyIDFromAlias (KeyPrefix config) name = Inl e)
                \<or> (\<exists>e. keyTypeFromKeySpec (km_CustomerMasterKeySpec md) = Inl e))"
    then have "buildKeyEntry q2 name target = (Inr None, q3)"
      using buildKeyEntry_skips [of q2 name md q3 target] kp by simp
    then show "loadAliases q1 (Aliases resp) = loadAliases q3 rest"
      using assms(6,7) by (simp add: loadAliases_append)
    from h show "entries q3 = entries q2" using call_fields(1) by blast
  }
  {
    fix md q3 spireKeyID keyType err q4 n
    assume h: "call q2 (Call_DescribeKey name) (\<lambda>c. kms_DescribeKey c name) = (Returned (Some md), q3)
            \<and> km_Enabled md \<and> spireKeyIDFromAlias (KeyPrefix config) name = Inr spireKeyID
            \<and> keyTypeFromKeySpec (km_CustomerMasterKeySpec md) = Inr keyType
            \<and> call q3 (Call_GetPublicKey (Some name)) (\<lambda>c. kms_GetPublicKey c (Some name))
                = (Failed err, q4)"
    then have "buildKeyEntry q2 name target = (Inl (FailedToGetPublicKey err), q4)"
      using buildKeyEntry_getPublicKey_fails [of q2 name md q3 spireKeyID keyType err q4 target] kp
      by simp
    with assms(4-7)
    have "fetchAllPages (k + Suc n) p None
            = Some (Inl (FailedToProcessKMSKey (FailedToGetPublicKey err)), q4)"
      by (rule page_aborts) simp
    then show "Configure (k + Suc n) decode p0 configuration
                 = Some (Inl (FailedToProcessKMSKey (FailedToGetPublicKey err)), q4)"
      by (simp only: conf)
  }
qed


theorem reconciliation_skips_and_aborts_witness:
  "map_option fst (Configure 1 simDecode (simFresh simAliases) [])
     = Some (Inl (FailedToProcessKMSKey (FailedToGetPublicKey ''access denied'')))
   \<and> map_option fst (Configure 1 simDecode
        (simFresh [\<lparr>AliasName = Some ''alias/SPIRE_SERVER_KEY/missing'', TargetKeyId = Some ''k5''\<rparr>]) [])
     = Some (Inl (FailedToProcessKMSKey (FailedToDescribeKey ''not found'')))
   \<and> fst (loadAliases (simPlugin True simAliases) (take 3 simAliases)) = Inr ()
   \<and> entries (snd (loadAliases (simPlugin True simAliases) (take 3 simAliases))) = Map.empty"
proof -
  let ?config = "\<lparr>AccessKeyID = [], SecretAccessKey = [], Region = ''us-east-1'',
                   KeyPrefix = defaultKeyPrefix\<rparr>"
  let ?dis = "\<lparr>AliasName = Some ''alias/SPIRE_SERVER_KEY/disabled'', TargetKeyId = Some ''k1''\<rparr>"
  let ?for = "\<lparr>AliasName = Some ''alias/OTHER/foreign'', TargetKeyId = Some ''k2''\<rparr>"
  let ?sym = "\<lparr>AliasName = Some ''alias/SPIRE_SERVER_KEY/symmetric'', TargetKeyId = Some ''k3''\<rparr>"
  let ?unr = "\<lparr>AliasName = Some ''alias/SPIRE_SERVER_KEY/unreadable'', TargetKeyId = Some ''k4''\<rparr>"
  let ?mis = "\<lparr>AliasName = Some ''alias/SPIRE_SERVER_KEY/missing'', TargetKeyId = Some ''k5''\<rparr>"
  let ?md = "\<lambda>name enabled spec.
     \<lparr>km_KeyId = Some name, km_Enabled = enabled, km_CustomerMasterKeySpec = spec\<rparr>"
  have v: "validateConfig simDecode [] = Inr ?config"
    by (simp add: validateConfig_def simDecode_def)
  have d1: "spireKeyIDFromAlias ''SPIRE_SERVER_KEY/'' ''alias/OTHER/foreign''
              = Inl (AliasWithoutPrefix ''SPIRE_SERVER_KEY/'')"
    by code_simp
  have d2: "spireKeyIDFromAlias ''SPIRE_SERVER_KEY/'' ''alias/SPIRE_SERVER_KEY/symmetric''
              = Inr ''symmetric''"
    by code_simp
  have d3: "spireKeyIDFromAlias ''SPIRE_SERVER_KEY/'' ''alias/SPIRE_SERVER_KEY/unreadable''
              = Inr ''unreadable''"
    by code_simp
  note ev = run_defs buildKeyEntry_def keyTypeFromKeySpec_def simFresh_def simAliases_def d1 d2 d3

  \<comment> \<open>the listing \<open>simAliases\<close>\<close>
  let ?fresh = "simFresh simAliases"
  let ?c = "simClient True simAliases"
  let ?p = "?fresh\<lparr>keyPrefix := KeyPrefix ?config, kmsClient := Some ?c\<rparr>"
  let ?resp = "\<lparr>Aliases = simAliases, NextMarker = None\<rparr>"
  let ?q1 = "snd (call ?p (Call_ListAliases None) (\<lambda>c. kms_ListAliases c None))"
  have h: "hooks_newClient ?fresh ?config = Inr ?c" by (simp add: simFresh_def newPlugin_def)
  have a: "afterPages 0 ?p None = Some (?p, None)" by simp
  have l: "call ?p (Call_ListAliases None) (\<lambda>c. kms_ListAliases c None) = (Returned ?resp, ?q1)"
    by (simp add: call_def simClient_def prod_eq_iff)

  \<comment> \<open>the disabled key, first of the page, is skipped\<close>
  let ?q3 = "snd (call ?q1 (Call_DescribeKey ''alias/SPIRE_SERVER_KEY/disabled'')
                    (\<lambda>c. kms_DescribeKey c ''alias/SPIRE_SERVER_KEY/disabled''))"
  have s0: "Aliases ?resp = [] @ \<lparr>AliasName = Some ''alias/SPIRE_SERVER_KEY/disabled'',
                                    TargetKeyId = Some ''k1''\<rparr> # [?for, ?sym, ?unr]"
    by (simp add: simAliases_def)
  have s1: "loadAliases ?q1 [] = (Inr (), ?q1)" by simp
  have s2: "call ?q1 (Call_DescribeKey ''alias/SPIRE_SERVER_KEY/disabled'')
                (\<lambda>c. kms_DescribeKey c ''alias/SPIRE_SERVER_KEY/disabled'')
            = (Returned (Some (?md ''alias/SPIRE_SERVER_KEY/disabled'' False ''ECC_NIST_P256'')), ?q3)"
    by (simp add: ev prod_eq_iff)
  have skip: "loadAliases ?q1 (Aliases ?resp) = loadAliases ?q3 [?for, ?sym, ?unr]
              \<and> entries ?q3 = entries ?q1"
    using reconciliation_skips_and_aborts [OF v h refl a l s0 s1, THEN conjunct2, THEN conjunct1,
      rule_format, of "?md ''alias/SPIRE_SERVER_KEY/disabled'' False ''ECC_NIST_P256''" ?q3] s2
    by simp

  \<comment> \<open>the three keys before the unreadable one are skipped, and it aborts \<open>Configure\<close>\<close>
  let ?q2 = "snd (loadAliases ?q1 [?dis, ?for, ?sym])"
  let ?r3 = "snd (call ?q2 (Call_DescribeKey ''alias/SPIRE_SERVER_KEY/unreadable'')
                    (\<lambda>c. kms_DescribeKey c ''alias/SPIRE_SERVER_KEY/unreadable''))"
  let ?r4 = "snd (call ?r3 (Call_GetPublicKey (Some ''alias/SPIRE_SERVER_KEY/unreadable''))
                    (\<lambda>c. kms_GetPublicKey c (Some ''alias/SPIRE_SERVER_KEY/unreadable'')))"
  have u0: "Aliases ?resp = [?dis, ?for, ?sym] @ \<lparr>AliasName = Some ''alias/SPIRE_SERVER_KEY/unreadable'',
                                    TargetKeyId = Some ''k4''\<rparr> # []"
    by (simp add: simAliases_def)
  have u1: "loadAliases ?q1 [?dis, ?for, ?sym] = (Inr (), ?q2)"
    by (simp add: ev prod_eq_iff)
  have u2: "call ?q2 (Call_DescribeKey ''alias/SPIRE_SERVER_KEY/unreadable'')
                (\<lambda>c. kms_DescribeKey c ''alias/SPIRE_SERVER_KEY/unreadable'')
            = (Returned (Some (?md ''alias/SPIRE_SERVER_KEY/unreadable'' True ''ECC_NIST_P256'')), ?r3)"
    by (simp add: ev prod_eq_iff)
  have u3: "call ?r3 (Call_GetPublicKey (Some ''alias/SPIRE_SERVER_KEY/unreadable''))
                (\<lambda>c. kms_GetPublicKey c (Some ''alias/SPIRE_SERVER_KEY/unreadable''))
            = (Failed ''access denied'', ?r4)"
    by (simp add: ev prod_eq_iff)
  have u4: "spireKeyIDFromAlias (KeyPrefix ?config) ''alias/SPIRE_SERVER_KEY/unreadable''
              = Inr ''unreadable''"
    using d3 by (simp add: defaultKeyPrefix_def)
  have u5: "keyTypeFromKeySpec ''ECC_NIST_P256'' = Inr KeyType_EC_P256"
    by (simp add: keyTypeFromKeySpec_def kms_constants)
  have abort1: "Configure (0 + Suc 0) simDecode ?fresh []
      = Some (Inl (FailedToProcessKMSKey (FailedToGetPublicKey ''access denied'')), ?r4)"
    using reconciliation_skips_and_aborts [OF v h refl a l u0 u1, THEN conjunct2, THEN conjunct2,
      rule_format, of "?md ''alias/SPIRE_SERVER_KEY/unreadable'' True ''ECC_NIST_P256''" ?r3
        "''unreadable''" KeyType_EC_P256 "''access denied''" ?r4 0] u2 u3 u4 u5
    by simp

  \<comment> \<open>a key that cannot be described aborts \<open>Configure\<close>\<close>
  let ?mfresh = "simFresh [?mis]"
  let ?mc = "simClient True [?mis]"
  let ?m = "?mfresh\<lparr>keyPrefix := KeyPrefix ?config, kmsClient := Some ?mc\<rparr>"
  let ?mresp = "\<lparr>Aliases = [?mis], NextMarker = None\<rparr>"
  let ?m1 = "snd (call ?m (Call_ListAliases None) (\<lambda>c. kms_ListAliases c None))"
  let ?m3 = "snd (call ?m1 (Call_DescribeKey ''alias/SPIRE_SERVER_KEY/missing'')
                    (\<lambda>c. kms_DescribeKey c ''alias/SPIRE_SERVER_KEY/missing''))"
  have mh: "hooks_newClient ?mfresh ?config = Inr ?mc" by (simp add: simFresh_def newPlugin_def)
  have ma: "afterPages 0 ?m None = Some (?m, None)" by simp
  have ml: "call ?m (Call_ListAliases None) (\<lambda>c. kms_ListAliases c None) = (Returned ?mresp, ?m1)"
    by (simp add: call_def simClient_def prod_eq_iff)
  have m0: "Aliases ?mresp = [] @ \<lparr>AliasName = Some ''alias/SPIRE_SERVER_KEY/missing'',
                                     TargetKeyId = Some ''k5''\<rparr> # []"
    by simp
  have m1: "loadAliases ?m1 [] = (Inr (), ?m1)" by simp
  have m2: "call ?m1 (Call_DescribeKey ''alias/SPIRE_SERVER_KEY/missing'')
                (\<lambda>c. kms_DescribeKey c ''alias/SPIRE_SERVER_KEY/missing'')
            = (Failed ''not found'', ?m3)"
    by (simp add: ev prod_eq_iff)
  have abort2: "Configure (0 + Suc 0) simDecode ?mfresh []
      = Some (Inl (FailedToProcessKMSKey (FailedToDescribeKey ''not found'')), ?m3)"
    using reconciliation_skips_and_aborts [OF v mh refl ma ml m0 m1, THEN conjunct1,
      rule_format, of "''not found''" ?m3 0] m2
    by simp

  have e1: "fst (loadAliases (simPlugin True simAliases) (take 3 simAliases)) = Inr ()"
    by (simp add: ev)
  have e2: "entries (snd (loadAliases (simPlugin True simAliases) (take 3 simAliases))) = Map.empty"
    by (simp add: ev)
  from abort1 abort2 skip e1 e2 show ?thesis by simp
qed

end
